theory Spec2Isabelle
  imports Complex_Main "HOL-Library.Word" "HOL-Library.Log_Nat" "HOL-Library.Code_Target_Numeral"
begin

section \<open>Single-precision floating point\<close>

text \<open>
  Every quantity of \<^verbatim>\<open>motor.cpp\<close> is a C++ \<^verbatim>\<open>float\<close>: an IEEE 754 binary32 value.
  A float is modelled as its 32-bit pattern (sign bit, 8 exponent bits, 23 fraction bits), and
  every arithmetic operation computes the exact real result of its operands and rounds it to
  the nearest representable value, ties to even, overflowing to infinity.  NaN payloads are
  not tracked: an operation that yields NaN yields the default quiet NaN; \<open>is_nan\<close> and the
  comparisons do not tell payloads apart.
\<close>

type_synonym float = "32 word"

definition fsign :: "float \<Rightarrow> bool" where
  "fsign x = (2 ^ 31 \<le> unat x)"

text \<open>The low 31 bits: exponent and fraction, the magnitude of the value.\<close>

definition fmag :: "float \<Rightarrow> nat" where
  "fmag x = unat x mod 2 ^ 31"

definition inf_bits :: nat where
  "inf_bits = 255 * 2 ^ 23"

definition is_nan :: "float \<Rightarrow> bool" where
  "is_nan x = (inf_bits < fmag x)"

definition is_inf :: "float \<Rightarrow> bool" where
  "is_inf x = (fmag x = inf_bits)"

definition mkfloat :: "bool \<Rightarrow> nat \<Rightarrow> float" where
  "mkfloat s b = word_of_nat ((if s then 2 ^ 31 else 0) + b)"

definition qnan :: float where
  "qnan = mkfloat False (inf_bits + 2 ^ 22)"

text \<open>
  The value of a finite magnitude, as a multiple of the smallest subnormal \<open>2\<^sup>-\<^sup>1\<^sup>4\<^sup>9\<close>:
  \<open>scaled_mag b\<close> is that multiple, \<open>valmag b\<close> the real value.
\<close>

definition scaled_mag :: "nat \<Rightarrow> nat" where
  "scaled_mag b = (if b div 2 ^ 23 = 0 then b mod 2 ^ 23
                   else (2 ^ 23 + b mod 2 ^ 23) * 2 ^ (b div 2 ^ 23 - 1))"

definition valmag :: "nat \<Rightarrow> real" where
  "valmag b = real (scaled_mag b) / 2 ^ 149"

definition fval :: "float \<Rightarrow> real" where
  "fval x = (if fsign x then - valmag (fmag x) else valmag (fmag x))"

text \<open>Rounding a non-negative real to the nearest natural number, ties to even.\<close>

definition rhe_at :: "real \<Rightarrow> int \<Rightarrow> nat" where
  "rhe_at q f = (if q - of_int f < 1 / 2 \<or> (q - of_int f = 1 / 2 \<and> even f)
                 then nat f else nat f + 1)"

definition rhe :: "real \<Rightarrow> nat" where
  "rhe q = rhe_at q \<lfloor>q\<rfloor>"

text \<open>
  Rounding a non-negative real \<open>a\<close> to a magnitude.  With \<open>t = a \<sqdot> 2\<^sup>1\<^sup>4\<^sup>9\<close> and \<open>k\<close> the number
  of bits of \<open>\<lfloor>t\<rfloor>\<close> beyond 24, the unit in the last place is \<open>2\<^sup>k\<close> (in units of \<open>2\<^sup>-\<^sup>1\<^sup>4\<^sup>9\<close>) and
  the bit pattern is \<open>k \<sqdot> 2\<^sup>2\<^sup>3\<close> plus the rounded significand: a significand that rounds up to
  \<open>2\<^sup>2\<^sup>4\<close> carries into the exponent field by itself.
\<close>

definition round_ulp :: "real \<Rightarrow> nat \<Rightarrow> nat" where
  "round_ulp t k = min inf_bits (k * 2 ^ 23 + rhe (t / 2 ^ k))"

definition round_scaled :: "real \<Rightarrow> nat" where
  "round_scaled t = round_ulp t (floorlog 2 (nat \<lfloor>t\<rfloor>) - 24)"

definition round_mag :: "real \<Rightarrow> nat" where
  "round_mag a = round_scaled (a * 2 ^ 149)"

definition fround :: "bool \<Rightarrow> real \<Rightarrow> float" where
  "fround s a = mkfloat s (round_mag a)"

text \<open>A decimal literal such as \<^verbatim>\<open>0.99f\<close>, and the conversion \<^verbatim>\<open>(float)i\<close> of an integer.\<close>

definition flit :: "real \<Rightarrow> float" where
  "flit r = fround (r < 0) \<bar>r\<bar>"

definition float_of_int :: "int \<Rightarrow> float" where
  "float_of_int i = fround (i < 0) \<bar>real_of_int i\<bar>"

subsection \<open>Arithmetic\<close>

definition fneg :: "float \<Rightarrow> float" where
  "fneg x = mkfloat (\<not> fsign x) (fmag x)"

definition std_abs :: "float \<Rightarrow> float" where
  "std_abs x = mkfloat False (fmag x)"

definition fadd :: "float \<Rightarrow> float \<Rightarrow> float" where
  "fadd x y =
     (if is_nan x \<or> is_nan y then qnan
      else if is_inf x then (if is_inf y \<and> fsign x \<noteq> fsign y then qnan else x)
      else if is_inf y then y
      else if fval x + fval y = 0 then mkfloat (fsign x \<and> fsign y) 0
      else fround (fval x + fval y < 0) \<bar>fval x + fval y\<bar>)"

definition fsub :: "float \<Rightarrow> float \<Rightarrow> float" where
  "fsub x y = fadd x (fneg y)"

definition fmul :: "float \<Rightarrow> float \<Rightarrow> float" where
  "fmul x y =
     (if is_nan x \<or> is_nan y then qnan
      else if (is_inf x \<and> fmag y = 0) \<or> (fmag x = 0 \<and> is_inf y) then qnan
      else if is_inf x \<or> is_inf y then mkfloat (fsign x \<noteq> fsign y) inf_bits
      else fround (fsign x \<noteq> fsign y) (valmag (fmag x) * valmag (fmag y)))"

definition fdiv :: "float \<Rightarrow> float \<Rightarrow> float" where
  "fdiv x y =
     (if is_nan x \<or> is_nan y then qnan
      else if (is_inf x \<and> is_inf y) \<or> (fmag x = 0 \<and> fmag y = 0) then qnan
      else if is_inf x \<or> fmag y = 0 then mkfloat (fsign x \<noteq> fsign y) inf_bits
      else if is_inf y then mkfloat (fsign x \<noteq> fsign y) 0
      else fround (fsign x \<noteq> fsign y) (valmag (fmag x) / valmag (fmag y)))"

text \<open>
  \<^verbatim>\<open>std::sqrt\<close>, correctly rounded.  For a positive finite \<open>x = T \<sqdot> 2\<^sup>-\<^sup>1\<^sup>4\<^sup>9\<close> the root is
  \<open>\<surd>(T \<sqdot> 2\<^sup>5\<^sup>3) \<sqdot> 2\<^sup>-\<^sup>1\<^sup>0\<^sup>1\<close>; the integer root \<open>r\<close> has at least 27 bits, so no rounding boundary lies
  strictly between \<open>r\<close> and \<open>r + 1\<close>, and an inexact root rounds as \<open>r + 1/2\<close> does.
\<close>

definition isqrt_step :: "nat \<Rightarrow> nat \<Rightarrow> nat" where
  "isqrt_step n r = (if (r + 1) * (r + 1) \<le> n then r + 1 else r)"

fun isqrt :: "nat \<Rightarrow> nat" where
  "isqrt n = (if n < 4 then (if n = 0 then 0 else 1) else isqrt_step n (2 * isqrt (n div 4)))"

declare isqrt.simps [simp del]

definition sqrt_sticky :: "nat \<Rightarrow> nat \<Rightarrow> real" where
  "sqrt_sticky n r = (real r + (if r * r = n then 0 else 1 / 2)) / 2 ^ 101"

definition sqrt_mag :: "nat \<Rightarrow> real" where
  "sqrt_mag b = sqrt_sticky (scaled_mag b * 2 ^ 53) (isqrt (scaled_mag b * 2 ^ 53))"

definition std_sqrt :: "float \<Rightarrow> float" where
  "std_sqrt x =
     (if is_nan x then qnan
      else if fmag x = 0 then x
      else if fsign x then qnan
      else if is_inf x then x
      else fround False (sqrt_mag (fmag x)))"

subsection \<open>Comparisons\<close>

text \<open>
  A comparison with a NaN operand is false.  Otherwise floats are ordered as the
  sign-magnitude integers their bit patterns are (so \<open>-0\<close> and \<open>+0\<close> are equal).
\<close>

definition fkey :: "float \<Rightarrow> int" where
  "fkey x = (if fsign x then - int (fmag x) else int (fmag x))"

definition flt :: "float \<Rightarrow> float \<Rightarrow> bool" where
  "flt x y = (\<not> is_nan x \<and> \<not> is_nan y \<and> fkey x < fkey y)"

definition fgt :: "float \<Rightarrow> float \<Rightarrow> bool" where
  "fgt x y = flt y x"

definition fge :: "float \<Rightarrow> float \<Rightarrow> bool" where
  "fge x y = (\<not> is_nan x \<and> \<not> is_nan y \<and> fkey y \<le> fkey x)"

text \<open>\<^verbatim>\<open>std::min\<close>, \<^verbatim>\<open>std::max\<close> and \<^verbatim>\<open>std::clamp\<close> as the standard library defines them on \<^verbatim>\<open><\<close>.\<close>

definition std_min :: "float \<Rightarrow> float \<Rightarrow> float" where
  "std_min a b = (if flt b a then b else a)"

definition std_max :: "float \<Rightarrow> float \<Rightarrow> float" where
  "std_max a b = (if flt a b then b else a)"

definition std_clamp :: "float \<Rightarrow> float \<Rightarrow> float \<Rightarrow> float" where
  "std_clamp v lo hi = (if flt v lo then lo else if flt hi v then hi else v)"

text \<open>The macro \<^verbatim>\<open>SQ(x)\<close> is \<^verbatim>\<open>((x) * (x))\<close>.\<close>

definition SQ :: "float \<Rightarrow> float" where
  "SQ x = fmul x x"

text \<open>
  The cast \<^verbatim>\<open>(uint16_t)f\<close> drops the fraction (rounds toward zero).  C++ defines it only when
  the truncated value fits; here a value that does not fit wraps modulo \<open>2\<^sup>1\<^sup>6\<close> and NaN and
  the infinities give 0, and the statements about duty counts keep to values that fit.
\<close>

definition trunc_int :: "float \<Rightarrow> int" where
  "trunc_int f = (if is_nan f \<or> is_inf f then 0
                  else if fsign f then - \<lfloor>valmag (fmag f)\<rfloor> else \<lfloor>valmag (fmag f)\<rfloor>)"

definition uint16_of_float :: "float \<Rightarrow> 16 word" where
  "uint16_of_float f = word_of_int (trunc_int f)"

section \<open>Data model\<close>

text \<open>
  The declarations of \<^verbatim>\<open>motor.hpp\<close> are not part of the sources at hand; the records below
  hold the members that \<^verbatim>\<open>motor.cpp\<close> reads and writes, under the names it uses (a member
  \<^verbatim>\<open>foo_\<close> is the field \<open>foo\<close>).  An error bitmask is modelled as the set of the error kinds
  whose bits are set, so that \<^verbatim>\<open>error_ |= kind\<close> is \<open>insert kind\<close>.
\<close>

datatype MotorType =
    MOTOR_TYPE_HIGH_CURRENT
  | MOTOR_TYPE_GIMBAL
  | MOTOR_TYPE_ACIM
  | MOTOR_TYPE_UNLISTED  \<comment> \<open>any other value of the field: the \<^verbatim>\<open>default\<close> and final \<^verbatim>\<open>else\<close> branches\<close>

datatype Error =
    ERROR_PHASE_RESISTANCE_OUT_OF_RANGE
  | ERROR_PHASE_INDUCTANCE_OUT_OF_RANGE
  | ERROR_DRV_FAULT
  | ERROR_MOTOR_THERMISTOR_OVER_TEMP
  | ERROR_FET_THERMISTOR_OVER_TEMP
  | ERROR_CONTROL_DEADLINE_MISSED
  | ERROR_CURRENT_SENSE_SATURATION
  | ERROR_CURRENT_LIMIT_VIOLATION
  | ERROR_MODULATION_MAGNITUDE
  | ERROR_MODULATION_IS_NAN
  | ERROR_NOT_IMPLEMENTED_MOTOR_TYPE

datatype AxisError =
    AXIS_ERROR_MOTOR_FAILED
  | AXIS_ERROR_CURRENT_MEASUREMENT_TIMEOUT
  | AXIS_ERROR_OTHER

datatype ArmedState = DISARMED | ARMING | ARMED

datatype TimingLog_t =
    TIMING_LOG_MEAS_R
  | TIMING_LOG_MEAS_L
  | TIMING_LOG_FOC_VOLTAGE
  | TIMING_LOG_FOC_CURRENT

record Config_t =
  pre_calibrated :: bool
  pole_pairs :: int
  calibration_current :: float
  resistance_calib_max_voltage :: float
  phase_inductance :: float
  phase_resistance :: float
  torque_constant :: float
  direction :: int
  motor_type :: MotorType
  current_lim :: float
  current_lim_margin :: float
  torque_lim :: float
  requested_current_range :: float
  current_control_bandwidth :: float
  acim_slip_velocity :: float
  acim_gain_min_flux :: float
  acim_autoflux_min_Id :: float
  acim_autoflux_enable :: bool
  acim_autoflux_attack_gain :: float
  acim_autoflux_decay_gain :: float
  R_wL_FF_enable :: bool
  bEMF_FF_enable :: bool

record CurrentControl_t =
  p_gain :: float
  i_gain :: float
  v_current_control_integral_d :: float
  v_current_control_integral_q :: float
  Ibus :: float
  final_v_alpha :: float
  final_v_beta :: float
  Id_setpoint :: float
  Iq_setpoint :: float
  Iq_measured :: float
  Id_measured :: float
  I_measured_report_filter_k :: float
  max_allowed_current :: float
  overcurrent_trip_level :: float
  acim_rotor_flux :: float
  async_phase_vel :: float
  async_phase_offset :: float

record Iph_BC_t =
  phB :: float
  phC :: float

text \<open>
  The motor, together with the state of its axis and of the board that \<^verbatim>\<open>motor.cpp\<close>
  touches: the axis error mask, the PWM arming state, the brake-current and
  axis-controller entry points (counted), and the oscilloscope capture buffer.
\<close>

record Motor =
  config :: Config_t
  current_control :: CurrentControl_t
  error :: "Error set"
  is_calibrated :: bool
  effective_current_lim_val :: float  \<comment> \<open>the member \<^verbatim>\<open>effective_current_lim_\<close>\<close>
  phase_current_rev_gain :: float
  shunt_conductance :: float
  current_meas :: Iph_BC_t
  next_timings :: "nat \<Rightarrow> 16 word"
  next_timings_valid :: bool
  timing_log :: "TimingLog_t \<Rightarrow> 16 word"
  armed_state :: ArmedState
  axis_error :: "AxisError set"
  controller_resets :: nat
  brake_current_updates :: nat
  oscilloscope :: "nat \<Rightarrow> float"
  oscilloscope_pos :: nat
  osc_ready :: bool
  osc_capturing :: bool

text \<open>
  What the file takes from outside: the board constants, the bus voltage, the helpers of
  \<^verbatim>\<open>utils\<close> (\<^verbatim>\<open>SVM\<close>, the sine and cosine approximations, \<^verbatim>\<open>wrap_pm_pi\<close>) and the answers of
  the gate driver, the op-amp, the thermistors and the axis.  They are parameters of the model.
\<close>

record Board =
  vbus_voltage :: float
  current_meas_period :: float
  current_meas_hz :: "32 word"  \<comment> \<open>a C \<^verbatim>\<open>int\<close>, read with \<open>sint\<close>\<close>
  TIM_1_8_PERIOD_CLOCKS :: nat
  one_by_sqrt3 :: float
  sqrt3_by_2 :: float
  SVM :: "float \<Rightarrow> float \<Rightarrow> float \<times> float \<times> float \<times> bool"
  our_arm_cos_f32 :: "float \<Rightarrow> float"
  our_arm_sin_f32 :: "float \<Rightarrow> float"
  wrap_pm_pi :: "float \<Rightarrow> float"
  gate_driver_init :: bool
  opamp_set_gain :: "float \<Rightarrow> bool \<times> float"
  motor_thermistor_get_current_limit :: "float \<Rightarrow> float"
  fet_thermistor_get_current_limit :: "float \<Rightarrow> float"
  wait_for_current_meas :: bool
  clocks_per_cnt :: "16 word"
  htim13_CNT :: "TimingLog_t \<Rightarrow> 32 word"
  OSCILLOSCOPE_SIZE :: nat
  axis_num :: nat

section \<open>Arming, errors and set-up\<close>

text \<open>
  Modelled from the spec: \<^verbatim>\<open>safety_critical_disarm_motor_pwm\<close>,
  \<^verbatim>\<open>safety_critical_arm_motor_pwm\<close>, \<^verbatim>\<open>update_brake_current\<close> and
  \<^verbatim>\<open>axis_->controller_.reset()\<close> are defined outside \<^verbatim>\<open>motor.cpp\<close>.  The spec's safety
  state machine says what they do to the motor: any fault goes to \<open>DISARMED\<close>, the
  hardware-level arm primitive goes to \<open>ARMED\<close>; the brake-current recomputation and the
  reset of the axis controller act on other objects and are counted here.
\<close>

definition safety_critical_disarm_motor_pwm :: "Motor \<Rightarrow> Motor" where
  "safety_critical_disarm_motor_pwm m = m\<lparr>armed_state := DISARMED\<rparr>"

definition safety_critical_arm_motor_pwm :: "Motor \<Rightarrow> Motor" where
  "safety_critical_arm_motor_pwm m = m\<lparr>armed_state := ARMED\<rparr>"

definition update_brake_current :: "Motor \<Rightarrow> Motor" where
  "update_brake_current m = m\<lparr>brake_current_updates := Suc (brake_current_updates m)\<rparr>"

definition controller_reset :: "Motor \<Rightarrow> Motor" where
  "controller_reset m = m\<lparr>controller_resets := Suc (controller_resets m)\<rparr>"

definition set_error :: "Error \<Rightarrow> Motor \<Rightarrow> Motor" where
  "set_error e m =
     update_brake_current
       (safety_critical_disarm_motor_pwm
          (m\<lparr>error := insert e (error m),
             axis_error := insert AXIS_ERROR_MOTOR_FAILED (axis_error m)\<rparr>))"

definition reset_current_control :: "Motor \<Rightarrow> Motor" where
  "reset_current_control m =
     m\<lparr>current_control := (current_control m)
        \<lparr>v_current_control_integral_d := 0,
         v_current_control_integral_q := 0,
         acim_rotor_flux := 0,
         Ibus := 0\<rparr>\<rparr>"

text \<open>Every operation that returns \<^verbatim>\<open>bool\<close> returns the pair of that result and the new state.\<close>

definition arm :: "Board \<Rightarrow> Motor \<Rightarrow> bool \<times> Motor" where
  "arm hw m =
     (let m1 = reset_current_control (controller_reset m)
      in if \<not> wait_for_current_meas hw
         then (False, m1\<lparr>axis_error :=
                 insert AXIS_ERROR_CURRENT_MEASUREMENT_TIMEOUT (axis_error m1)\<rparr>)
         else (True, safety_critical_arm_motor_pwm (m1\<lparr>next_timings_valid := False\<rparr>)))"

definition update_current_controller_gains :: "Motor \<Rightarrow> Motor" where
  "update_current_controller_gains m =
     (let p = fmul (current_control_bandwidth (config m)) (phase_inductance (config m));
          plant_pole = fdiv (phase_resistance (config m)) (phase_inductance (config m))
      in m\<lparr>current_control := (current_control m)\<lparr>p_gain := p, i_gain := fmul plant_pole p\<rparr>\<rparr>)"

definition apply_config :: "Motor \<Rightarrow> bool \<times> Motor" where
  "apply_config m =
     (True, update_current_controller_gains (m\<lparr>is_calibrated := pre_calibrated (config m)\<rparr>))"

text \<open>\<^verbatim>\<open>Motor::setup\<close> (the bare name is a keyword of the prover).\<close>

definition Motor_setup :: "Board \<Rightarrow> Motor \<Rightarrow> bool \<times> Motor" where
  "Motor_setup hw m =
     (if \<not> gate_driver_init hw then (False, set_error ERROR_DRV_FAULT m)
      else
        let kMargin = flit 0.90;
            kTripMargin = flit 1.0;
            max_output_swing = flit 1.35;
            max_unity_gain_current = fmul (fmul kMargin max_output_swing) (shunt_conductance m);
            requested_gain = fdiv max_unity_gain_current (requested_current_range (config m));
            (success, actual_gain) = opamp_set_gain hw requested_gain
        in if \<not> success then (False, m)
           else
             let rev_gain = fdiv (flit 1.0) actual_gain;
                 max_allowed = fmul max_unity_gain_current rev_gain
             in (True, m\<lparr>phase_current_rev_gain := rev_gain,
                         current_control := (current_control m)
                           \<lparr>max_allowed_current := max_allowed,
                            overcurrent_trip_level := fmul (fdiv kTripMargin kMargin) max_allowed\<rparr>\<rparr>))"

section \<open>Limits\<close>

definition effective_current_lim :: "Board \<Rightarrow> Motor \<Rightarrow> float \<times> Motor" where
  "effective_current_lim hw m =
     (let current_lim0 = current_lim (config m);
          current_lim1 =
            (if motor_type (config m) = MOTOR_TYPE_GIMBAL
             then std_min current_lim0 (fmul (fmul (flit 0.98) (one_by_sqrt3 hw)) (vbus_voltage hw))
             else std_min current_lim0 (max_allowed_current (current_control m)));
          current_lim2 =
            std_min current_lim1 (motor_thermistor_get_current_limit hw (current_lim (config m)));
          current_lim3 =
            std_min current_lim2 (fet_thermistor_get_current_limit hw (current_lim (config m)))
      in (current_lim3, m\<lparr>effective_current_lim_val := current_lim3\<rparr>))"

text \<open>
  The hardware limit of \<^verbatim>\<open>effective_current_lim\<close> (\<^verbatim>\<open>// Hardware limit\<close>): the second operand
  of its first \<^verbatim>\<open>std::min\<close>.
\<close>

definition hw_cap :: "Board \<Rightarrow> Motor \<Rightarrow> float" where
  "hw_cap hw m =
     (if motor_type (config m) = MOTOR_TYPE_GIMBAL
      then fmul (fmul (flit 0.98) (one_by_sqrt3 hw)) (vbus_voltage hw)
      else max_allowed_current (current_control m))"

definition max_available_torque :: "Motor \<Rightarrow> float" where
  "max_available_torque m =
     (if motor_type (config m) = MOTOR_TYPE_ACIM
      then std_clamp
             (fmul (fmul (effective_current_lim_val m) (torque_constant (config m)))
                   (acim_rotor_flux (current_control m)))
             0 (torque_lim (config m))
      else std_clamp (fmul (effective_current_lim_val m) (torque_constant (config m)))
             0 (torque_lim (config m)))"

text \<open>
  \<^verbatim>\<open>log_timing\<close> stores the timer count of the moment, scaled, in the slot of the stage; the
  slot index of every stage named in the file is below \<^verbatim>\<open>TIMING_LOG_NUM_SLOTS\<close>.
\<close>

definition log_timing :: "Board \<Rightarrow> TimingLog_t \<Rightarrow> Motor \<Rightarrow> Motor" where
  "log_timing hw log_idx m =
     m\<lparr>timing_log := (timing_log m)
        (log_idx := ucast (ucast (clocks_per_cnt hw) * htim13_CNT hw log_idx))\<rparr>"

section \<open>Modulation\<close>

definition enqueue_modulation_timings :: "Board \<Rightarrow> float \<Rightarrow> float \<Rightarrow> Motor \<Rightarrow> bool \<times> Motor" where
  "enqueue_modulation_timings hw mod_alpha mod_beta m =
     (if is_nan mod_alpha \<or> is_nan mod_beta then (False, set_error ERROR_MODULATION_IS_NAN m)
      else
        let (tA, tB, tC, success) = SVM hw mod_alpha mod_beta
        in if \<not> success then (False, set_error ERROR_MODULATION_MAGNITUDE m)
           else (True,
             m\<lparr>next_timings := (next_timings m)
                 (0 := uint16_of_float (fmul tA (float_of_int (int (TIM_1_8_PERIOD_CLOCKS hw)))),
                  1 := uint16_of_float (fmul tB (float_of_int (int (TIM_1_8_PERIOD_CLOCKS hw)))),
                  2 := uint16_of_float (fmul tC (float_of_int (int (TIM_1_8_PERIOD_CLOCKS hw))))),
               next_timings_valid := True\<rparr>))"

definition enqueue_voltage_timings :: "Board \<Rightarrow> float \<Rightarrow> float \<Rightarrow> Motor \<Rightarrow> bool \<times> Motor" where
  "enqueue_voltage_timings hw v_alpha v_beta m =
     (let vfactor = fdiv (flit 1.0) (fmul (fdiv (flit 2.0) (flit 3.0)) (vbus_voltage hw));
          mod_alpha = fmul vfactor v_alpha;
          mod_beta = fmul vfactor v_beta;
          (ok, m1) = enqueue_modulation_timings hw mod_alpha mod_beta m
      in if \<not> ok then (False, m1)
         else (True, log_timing hw TIMING_LOG_FOC_VOLTAGE m1))"

definition FOC_voltage :: "Board \<Rightarrow> float \<Rightarrow> float \<Rightarrow> float \<Rightarrow> Motor \<Rightarrow> bool \<times> Motor" where
  "FOC_voltage hw v_d v_q pwm_phase m =
     (let c = our_arm_cos_f32 hw pwm_phase;
          s = our_arm_sin_f32 hw pwm_phase;
          v_alpha = fsub (fmul c v_d) (fmul s v_q);
          v_beta = fadd (fmul c v_q) (fmul s v_d)
      in enqueue_voltage_timings hw v_alpha v_beta m)"

section \<open>The current controller\<close>

text \<open>
  \<^verbatim>\<open>FOC_current\<close> is modelled block by block, in the order of the source.  Each C++
  operator rounds on its own (no fused multiply-add).  The profiling timers
  \<^verbatim>\<open>task_times_.FOC_Current\<close> of the axis are left out: they are written nowhere else.
\<close>

text \<open>Clarke and Park transform of the measured phase currents: \<open>(Ialpha, I_d, I_q)\<close>, the
  source's \<^verbatim>\<open>Id\<close> and \<^verbatim>\<open>Iq\<close>.\<close>

definition clarke_park :: "Board \<Rightarrow> Motor \<Rightarrow> float \<Rightarrow> float \<times> float \<times> float" where
  "clarke_park hw m I_phase =
     (let Ialpha = fsub (fneg (phB (current_meas m))) (phC (current_meas m));
          Ibeta = fmul (one_by_sqrt3 hw) (fsub (phB (current_meas m)) (phC (current_meas m)));
          c_I = our_arm_cos_f32 hw I_phase;
          s_I = our_arm_sin_f32 hw I_phase
      in (Ialpha,
          fadd (fmul c_I Ialpha) (fmul s_I Ibeta),
          fsub (fmul c_I Ibeta) (fmul s_I Ialpha)))"

definition mod_to_V :: "Board \<Rightarrow> float" where
  "mod_to_V hw = fmul (fdiv (flit 2.0) (flit 3.0)) (vbus_voltage hw)"

text \<open>
  Current error, PI control and the feed-forward terms, converted to modulation:
  \<open>(Ierr_d, Ierr_q, mod_d, mod_q)\<close>.
\<close>

definition pi_modulation ::
  "Board \<Rightarrow> Motor \<Rightarrow> float \<Rightarrow> float \<Rightarrow> float \<Rightarrow> float \<Rightarrow> float \<Rightarrow> float \<times> float \<times> float \<times> float" where
  "pi_modulation hw m I_d I_q Id_des Iq_des phase_vel =
     (let ictrl = current_control m;
          cfg = config m;
          Ierr_d = fsub Id_des I_d;
          Ierr_q = fsub Iq_des I_q;
          Vd0 = fadd (v_current_control_integral_d ictrl) (fmul Ierr_d (p_gain ictrl));
          Vq0 = fadd (v_current_control_integral_q ictrl) (fmul Ierr_q (p_gain ictrl));
          Vd1 = (if R_wL_FF_enable cfg
                 then fadd (fsub Vd0 (fmul (fmul phase_vel (phase_inductance cfg)) Iq_des))
                           (fmul (phase_resistance cfg) Id_des)
                 else Vd0);
          Vq1 = (if R_wL_FF_enable cfg
                 then fadd (fadd Vq0 (fmul (fmul phase_vel (phase_inductance cfg)) Id_des))
                           (fmul (phase_resistance cfg) Iq_des)
                 else Vq0);
          Vq2 = (if bEMF_FF_enable cfg
                 then fadd Vq1 (fmul (fmul phase_vel (fdiv (flit 2.0) (flit 3.0)))
                                     (fdiv (torque_constant cfg) (float_of_int (pole_pairs cfg))))
                 else Vq1);
          V_to_mod = fdiv (flit 1.0) (mod_to_V hw)
      in (Ierr_d, Ierr_q, fmul V_to_mod Vd1, fmul V_to_mod Vq2))"

definition mod_scalefactor :: "Board \<Rightarrow> float \<Rightarrow> float \<Rightarrow> float" where
  "mod_scalefactor hw mod_d mod_q =
     fdiv (fmul (fmul (flit 0.80) (sqrt3_by_2 hw)) (flit 1.0))
          (std_sqrt (fadd (fmul mod_d mod_d) (fmul mod_q mod_q)))"

text \<open>
  Vector modulation saturation: the modulation vector and the current-control state after
  the block \<^verbatim>\<open>if (mod_scalefactor < 1.0f) { ... } else { ... }\<close>.
\<close>

definition modulation_saturation ::
  "Board \<Rightarrow> CurrentControl_t \<Rightarrow> float \<Rightarrow> float \<Rightarrow> float \<Rightarrow> float
     \<Rightarrow> float \<times> float \<times> CurrentControl_t" where
  "modulation_saturation hw ictrl Ierr_d Ierr_q mod_d mod_q =
     (if flt (mod_scalefactor hw mod_d mod_q) (flit 1.0)
      then (fmul mod_d (mod_scalefactor hw mod_d mod_q),
            fmul mod_q (mod_scalefactor hw mod_d mod_q),
            ictrl\<lparr>v_current_control_integral_d :=
                     fmul (v_current_control_integral_d ictrl) (flit 0.99),
                   v_current_control_integral_q :=
                     fmul (v_current_control_integral_q ictrl) (flit 0.99)\<rparr>)
      else (mod_d, mod_q,
            ictrl\<lparr>v_current_control_integral_d :=
                     fadd (v_current_control_integral_d ictrl)
                          (fmul Ierr_d (fmul (i_gain ictrl) (current_meas_period hw))),
                   v_current_control_integral_q :=
                     fadd (v_current_control_integral_q ictrl)
                          (fmul Ierr_q (fmul (i_gain ictrl) (current_meas_period hw)))\<rparr>))"

text \<open>The capture into the oscilloscope buffer at the end of \<^verbatim>\<open>FOC_current\<close>.\<close>

definition oscilloscope_capture :: "Board \<Rightarrow> float \<Rightarrow> float \<Rightarrow> Motor \<Rightarrow> Motor" where
  "oscilloscope_capture hw trigger_data sample_data m =
     (if axis_num hw = 0
      then
        let ready1 = (flt trigger_data (flit 0.5) \<or> osc_ready m);
            fire = (ready1 \<and> fge trigger_data (flit 0.5));
            capturing1 = (fire \<or> osc_capturing m);
            m1 = m\<lparr>osc_ready := (ready1 \<and> \<not> fire), osc_capturing := capturing1\<rparr>
        in if capturing1
           then
             let m2 = m1\<lparr>oscilloscope := (oscilloscope m1)(oscilloscope_pos m1 := sample_data)\<rparr>
             in if OSCILLOSCOPE_SIZE hw \<le> oscilloscope_pos m2 + 1
                then m2\<lparr>oscilloscope_pos := 0, osc_capturing := False\<rparr>
                else m2\<lparr>oscilloscope_pos := oscilloscope_pos m2 + 1\<rparr>
           else m1
      else m)"

definition current_sense_saturated :: "Motor \<Rightarrow> bool" where
  "current_sense_saturated m =
     (fgt (std_abs (phB (current_meas m))) (overcurrent_trip_level (current_control m))
      \<or> fgt (std_abs (phC (current_meas m))) (overcurrent_trip_level (current_control m)))"

definition FOC_current ::
  "Board \<Rightarrow> float \<Rightarrow> float \<Rightarrow> float \<Rightarrow> float \<Rightarrow> float \<Rightarrow> Motor \<Rightarrow> bool \<times> Motor" where
  "FOC_current hw Id_des Iq_des I_phase pwm_phase phase_vel m =
     (let m1 = m\<lparr>current_control := (current_control m)\<lparr>Iq_setpoint := Iq_des\<rparr>\<rparr>
      in if current_sense_saturated m1
         then (False, set_error ERROR_CURRENT_SENSE_SATURATION m1)
         else
           let (Ialpha, I_d, I_q) = clarke_park hw m1 I_phase;
               ic = current_control m1;
               m2 = m1\<lparr>current_control := ic
                      \<lparr>Iq_measured := fadd (Iq_measured ic)
                          (fmul (I_measured_report_filter_k ic) (fsub I_q (Iq_measured ic))),
                       Id_measured := fadd (Id_measured ic)
                          (fmul (I_measured_report_filter_k ic) (fsub I_d (Id_measured ic)))\<rparr>\<rparr>;
               I_trip = fadd (effective_current_lim_val m2) (current_lim_margin (config m2))
           in if fgt (fadd (SQ I_d) (SQ I_q)) (SQ I_trip)
              then (False, set_error ERROR_CURRENT_LIMIT_VIOLATION m2)
              else
                let (Ierr_d, Ierr_q, mod_d, mod_q) =
                      pi_modulation hw m2 I_d I_q Id_des Iq_des phase_vel;
                    (mod_d1, mod_q1, ic1) =
                      modulation_saturation hw (current_control m2) Ierr_d Ierr_q mod_d mod_q;
                    c_p = our_arm_cos_f32 hw pwm_phase;
                    s_p = our_arm_sin_f32 hw pwm_phase;
                    mod_alpha = fsub (fmul c_p mod_d1) (fmul s_p mod_q1);
                    mod_beta = fadd (fmul c_p mod_q1) (fmul s_p mod_d1);
                    m3 = m2\<lparr>current_control := ic1
                           \<lparr>Ibus := fadd (fmul mod_d1 I_d) (fmul mod_q1 I_q),
                            final_v_alpha := fmul (mod_to_V hw) mod_alpha,
                            final_v_beta := fmul (mod_to_V hw) mod_beta\<rparr>\<rparr>;
                    (ok, m4) = enqueue_modulation_timings hw mod_alpha mod_beta m3
                in if \<not> ok then (False, m4)
                   else (True,
                     oscilloscope_capture hw
                       (v_current_control_integral_d (current_control m4)) Ialpha
                       (log_timing hw TIMING_LOG_FOC_CURRENT m4)))"

section \<open>The top-level update\<close>

text \<open>
  The slip velocity of an induction motor, and the guard on it
  (\<^verbatim>\<open>// Check for issues with small denominator\<close>).
\<close>

definition acim_slip_raw :: "Motor \<Rightarrow> float \<Rightarrow> float \<Rightarrow> float" where
  "acim_slip_raw m i_q flux = fmul (acim_slip_velocity (config m)) (fdiv i_q flux)"

definition slip_guard :: "Board \<Rightarrow> float \<Rightarrow> float" where
  "slip_guard hw slip_velocity =
     (if is_nan slip_velocity
         \<or> fgt (std_abs slip_velocity) (fmul (flit 0.1) (float_of_int (sint (current_meas_hz hw))))
      then 0 else slip_velocity)"

text \<open>
  The block \<^verbatim>\<open>if (config_.motor_type == MOTOR_TYPE_ACIM) { ... }\<close> of \<^verbatim>\<open>update\<close>: the new
  state with the new \<open>id\<close>, \<open>phase\<close> and \<open>phase_vel\<close>.
\<close>

definition acim_update ::
  "Board \<Rightarrow> float \<Rightarrow> float \<Rightarrow> float \<Rightarrow> float \<Rightarrow> float \<Rightarrow> Motor
     \<Rightarrow> Motor \<times> float \<times> float \<times> float" where
  "acim_update hw ilim i_d i_q phase phase_vel m =
     (let cfg = config m;
          i_d1 = (if acim_autoflux_enable cfg
                 then std_clamp
                        (fadd i_d
                           (fmul (fmul (if fgt (std_abs i_q) i_d then acim_autoflux_attack_gain cfg
                                        else acim_autoflux_decay_gain cfg)
                                       (fsub (std_abs i_q) i_d))
                                 (current_meas_period hw)))
                        (acim_autoflux_min_Id cfg) ilim
                 else i_d);
          m1 = (if acim_autoflux_enable cfg
                then m\<lparr>current_control := (current_control m)\<lparr>Id_setpoint := i_d1\<rparr>\<rparr>
                else m);
          dflux_by_dt = fmul (acim_slip_velocity cfg) (fsub i_d1 (acim_rotor_flux (current_control m1)));
          flux = fadd (acim_rotor_flux (current_control m1)) (fmul dflux_by_dt (current_meas_period hw));
          slip_velocity = slip_guard hw (acim_slip_raw m1 i_q flux);
          offset = wrap_pm_pi hw
                     (fadd (async_phase_offset (current_control m1))
                           (fmul slip_velocity (current_meas_period hw)));
          m2 = m1\<lparr>current_control := (current_control m1)
                 \<lparr>acim_rotor_flux := flux,
                  async_phase_vel := slip_velocity,
                  async_phase_offset := offset\<rparr>\<rparr>
      in (m2, i_d1, wrap_pm_pi hw (fadd phase offset), fadd phase_vel slip_velocity))"

text \<open>The local \<^verbatim>\<open>current_setpoint\<close> of \<^verbatim>\<open>update\<close>, before it is clamped.\<close>

definition current_setpoint :: "Motor \<Rightarrow> float \<Rightarrow> float" where
  "current_setpoint m torque_setpoint =
     fmul (if motor_type (config m) = MOTOR_TYPE_ACIM
           then fdiv torque_setpoint
                  (fmul (torque_constant (config m))
                     (std_max (acim_rotor_flux (current_control m)) (acim_gain_min_flux (config m))))
           else fdiv torque_setpoint (torque_constant (config m)))
          (float_of_int (direction (config m)))"

definition update :: "Board \<Rightarrow> float \<Rightarrow> float \<Rightarrow> float \<Rightarrow> Motor \<Rightarrow> bool \<times> Motor" where
  "update hw torque_setpoint phase0 phase_vel0 m =
     (let cfg = config m;
          phase = fmul phase0 (float_of_int (direction cfg));
          phase_vel = fmul phase_vel0 (float_of_int (direction cfg));
          ilim = effective_current_lim_val m;
          i_d = std_clamp (Id_setpoint (current_control m)) (fneg ilim) ilim;
          i_q = std_clamp (current_setpoint m torque_setpoint) (fneg ilim) ilim;
          (m1, i_d1, phase1, phase_vel1) =
            (if motor_type cfg = MOTOR_TYPE_ACIM
             then acim_update hw ilim i_d i_q phase phase_vel m
             else (m, i_d, phase, phase_vel));
          pwm_phase = fadd phase1 (fmul (fmul (flit 1.5) (current_meas_period hw)) phase_vel1)
      in case motor_type cfg of
           MOTOR_TYPE_HIGH_CURRENT \<Rightarrow> FOC_current hw i_d1 i_q phase1 pwm_phase phase_vel1 m1
         | MOTOR_TYPE_ACIM \<Rightarrow> FOC_current hw i_d1 i_q phase1 pwm_phase phase_vel1 m1
         | MOTOR_TYPE_GIMBAL \<Rightarrow> FOC_voltage hw i_d1 i_q pwm_phase m1
         | MOTOR_TYPE_UNLISTED \<Rightarrow> (False, set_error ERROR_NOT_IMPLEMENTED_MOTOR_TYPE m1))"

text \<open>
  The condition of the current-limit check of \<^verbatim>\<open>FOC_current\<close>, as a predicate of the state
  the call starts in: \<^verbatim>\<open>SQ(Id) + SQ(Iq) > SQ(I_trip)\<close> for the measured d/q currents.
\<close>

definition current_limit_violated :: "Board \<Rightarrow> Motor \<Rightarrow> float \<Rightarrow> bool" where
  "current_limit_violated hw m I_phase =
     (case clarke_park hw m I_phase of
        (Ialpha, I_d, I_q) \<Rightarrow>
          fgt (fadd (SQ I_d) (SQ I_q))
              (SQ (fadd (effective_current_lim_val m) (current_lim_margin (config m)))))"

section \<open>Calibration\<close>

text \<open>
  Modelled from the spec: \<^verbatim>\<open>axis_->run_control_loop(body)\<close> is defined outside
  \<^verbatim>\<open>motor.cpp\<close>.  The spec describes it as a synchronous tick pump: once per control period
  it runs \<open>body\<close>, which answers whether to continue; the current measurement is refreshed
  before each tick, and a calibration in flight detects a non-zero \<open>error\<close> at each tick and
  aborts.  A tick is what the outside supplies for one control period: the fresh phase
  currents and the bus voltage.  The loop consumes ticks; when the ticks run out before the
  loop has ended the result is \<open>None\<close>.
\<close>

type_synonym Tick = "Iph_BC_t \<times> float"

fun run_control_loop ::
  "(Board \<Rightarrow> 'l \<Rightarrow> Motor \<Rightarrow> bool \<times> 'l \<times> Motor) \<Rightarrow> Board \<Rightarrow> Tick list \<Rightarrow> 'l \<Rightarrow> Motor
     \<Rightarrow> ('l \<times> Motor \<times> Tick list) option" where
  "run_control_loop body hw [] l m = None"
| "run_control_loop body hw (tk # tks) l m =
     (if error m \<noteq> {} then Some (l, m, tk # tks)
      else
        case body (hw\<lparr>vbus_voltage := snd tk\<rparr>) l (m\<lparr>current_meas := fst tk\<rparr>) of
          (continue, l1, m1) \<Rightarrow>
            if continue then run_control_loop body hw tks l1 m1 else Some (l1, m1, tks))"

text \<open>
  The body of the loop of \<^verbatim>\<open>measure_phase_resistance\<close>; its captured variables are
  \<open>(test_voltage, i)\<close>.  The \<^verbatim>\<open>int\<close> \<^verbatim>\<open>num_test_cycles\<close> is compared with the \<^verbatim>\<open>size_t\<close>
  counter as an unsigned 32-bit number.
\<close>

definition num_test_cycles :: "Board \<Rightarrow> nat" where
  "num_test_cycles hw =
     unat (word_of_int (trunc_int (fdiv (flit 3.0) (current_meas_period hw))) :: 32 word)"

definition resistance_tick ::
  "float \<Rightarrow> float \<Rightarrow> Board \<Rightarrow> float \<times> nat \<Rightarrow> Motor \<Rightarrow> bool \<times> (float \<times> nat) \<times> Motor" where
  "resistance_tick test_current max_voltage hw l m =
     (let Ialpha = fneg (fadd (phB (current_meas m)) (phC (current_meas m)));
          test_voltage =
            fadd (fst l) (fmul (fmul (flit 10.0) (current_meas_period hw)) (fsub test_current Ialpha))
      in if fgt test_voltage max_voltage \<or> flt test_voltage (fneg max_voltage)
         then (False, (test_voltage, snd l), set_error ERROR_PHASE_RESISTANCE_OUT_OF_RANGE m)
         else
           case enqueue_voltage_timings hw test_voltage 0 m of
             (ok, m1) \<Rightarrow>
               if \<not> ok then (False, (test_voltage, snd l), m1)
               else (Suc (snd l) < num_test_cycles hw, (test_voltage, Suc (snd l)),
                     log_timing hw TIMING_LOG_MEAS_R m1))"

definition measure_phase_resistance ::
  "Board \<Rightarrow> float \<Rightarrow> float \<Rightarrow> Tick list \<Rightarrow> Motor \<Rightarrow> (bool \<times> Motor \<times> Tick list) option" where
  "measure_phase_resistance hw test_current max_voltage ticks m =
     (case run_control_loop (resistance_tick test_current max_voltage) hw ticks (0, 0) m of
        None \<Rightarrow> None
      | Some (l, m1, ticks1) \<Rightarrow>
          if axis_error m1 \<noteq> {} then Some (False, m1, ticks1)
          else Some (True,
                 m1\<lparr>config := (config m1)\<lparr>phase_resistance := fdiv (fst l) test_current\<rparr>\<rparr>,
                 ticks1))"

text \<open>
  The body of the loop of \<^verbatim>\<open>measure_phase_inductance\<close>; its captured variables are
  \<open>((Ialphas[0], Ialphas[1]), t)\<close>.
\<close>

definition inductance_tick ::
  "float \<Rightarrow> float \<Rightarrow> Board \<Rightarrow> (float \<times> float) \<times> nat \<Rightarrow> Motor
     \<Rightarrow> bool \<times> ((float \<times> float) \<times> nat) \<times> Motor" where
  "inductance_tick voltage_low voltage_high hw l m =
     (let t = snd l;
          Ialpha = fsub (fneg (phB (current_meas m))) (phC (current_meas m));
          Ialphas = (if t mod 2 = 0 then (fadd (fst (fst l)) Ialpha, snd (fst l))
                     else (fst (fst l), fadd (snd (fst l)) Ialpha))
      in case enqueue_voltage_timings hw (if t mod 2 = 0 then voltage_low else voltage_high) 0 m of
           (ok, m1) \<Rightarrow>
             if \<not> ok then (False, (Ialphas, t), m1)
             else (Suc t < 2 * 5000, (Ialphas, Suc t), log_timing hw TIMING_LOG_MEAS_L m1))"

text \<open>What \<^verbatim>\<open>measure_phase_inductance\<close> does after its loop, from the two accumulated sums.\<close>

definition identified_inductance :: "Board \<Rightarrow> float \<Rightarrow> float \<Rightarrow> float \<times> float \<Rightarrow> float" where
  "identified_inductance hw voltage_low voltage_high Ialphas =
     (let v_L = fmul (flit 0.5) (fsub voltage_high voltage_low);
          dI_by_dt = fdiv (fsub (snd Ialphas) (fst Ialphas))
                          (fmul (current_meas_period hw) (float_of_int 5000))
      in fdiv v_L dI_by_dt)"

definition measure_phase_inductance ::
  "Board \<Rightarrow> float \<Rightarrow> float \<Rightarrow> Tick list \<Rightarrow> Motor \<Rightarrow> (bool \<times> Motor \<times> Tick list) option" where
  "measure_phase_inductance hw voltage_low voltage_high ticks m =
     (case run_control_loop (inductance_tick voltage_low voltage_high) hw ticks ((0, 0), 0) m of
        None \<Rightarrow> None
      | Some (l, m1, ticks1) \<Rightarrow>
          if axis_error m1 \<noteq> {} then Some (False, m1, ticks1)
          else
            let L = identified_inductance hw voltage_low voltage_high (fst l);
                m2 = m1\<lparr>config := (config m1)\<lparr>phase_inductance := L\<rparr>\<rparr>
            in if flt L (flit 0.000002) \<or> fgt L (flit 0.004)
               then Some (False, set_error ERROR_PHASE_INDUCTANCE_OUT_OF_RANGE m2, ticks1)
               else Some (True, m2, ticks1))"

definition run_calibration :: "Board \<Rightarrow> Tick list \<Rightarrow> Motor \<Rightarrow> (bool \<times> Motor \<times> Tick list) option" where
  "run_calibration hw ticks m =
     (let R_calib_max_voltage = resistance_calib_max_voltage (config m)
      in if motor_type (config m) = MOTOR_TYPE_HIGH_CURRENT \<or> motor_type (config m) = MOTOR_TYPE_ACIM
         then
           case measure_phase_resistance hw (calibration_current (config m)) R_calib_max_voltage
                  ticks m of
             None \<Rightarrow> None
           | Some (ok1, m1, ticks1) \<Rightarrow>
               if \<not> ok1 then Some (False, m1, ticks1)
               else
                 case measure_phase_inductance hw (fneg R_calib_max_voltage) R_calib_max_voltage
                        ticks1 m1 of
                   None \<Rightarrow> None
                 | Some (ok2, m2, ticks2) \<Rightarrow>
                     if \<not> ok2 then Some (False, m2, ticks2)
                     else Some (True, (update_current_controller_gains m2)\<lparr>is_calibrated := True\<rparr>,
                                ticks2)
         else if motor_type (config m) = MOTOR_TYPE_GIMBAL
         then Some (True, (update_current_controller_gains m)\<lparr>is_calibrated := True\<rparr>, ticks)
         else Some (False, m, ticks))"

section \<open>Example inputs\<close>

text \<open>
  A board and a motor with the firmware's default configuration, on which the statements
  below are evaluated.  The example \<open>SVM\<close> answers with fixed on-times, the example cosine
  and sine are those of the angle 0.
\<close>

definition example_board :: Board where
  "example_board =
     \<lparr>vbus_voltage = flit 24,
      current_meas_period = flit 0.000125,
      current_meas_hz = 8000,
      TIM_1_8_PERIOD_CLOCKS = 3500,
      one_by_sqrt3 = flit 0.57735026919,
      sqrt3_by_2 = flit 0.86602540378,
      SVM = (\<lambda>a b. (flit 0.0625, flit 0.5, flit 1, True)),
      our_arm_cos_f32 = (\<lambda>x. flit 1),
      our_arm_sin_f32 = (\<lambda>x. 0),
      wrap_pm_pi = (\<lambda>x. x),
      gate_driver_init = True,
      opamp_set_gain = (\<lambda>g. (True, flit 40)),
      motor_thermistor_get_current_limit = (\<lambda>c. c),
      fet_thermistor_get_current_limit = (\<lambda>c. c),
      wait_for_current_meas = True,
      clocks_per_cnt = 2,
      htim13_CNT = (\<lambda>i. 0),
      OSCILLOSCOPE_SIZE = 4096,
      axis_num = 0\<rparr>"

definition example_config :: Config_t where
  "example_config =
     \<lparr>pre_calibrated = False,
      pole_pairs = 7,
      calibration_current = flit 10,
      resistance_calib_max_voltage = flit 2,
      phase_inductance = 0,
      phase_resistance = 0,
      torque_constant = flit 0.04,
      direction = 1,
      motor_type = MOTOR_TYPE_HIGH_CURRENT,
      current_lim = flit 10,
      current_lim_margin = flit 8,
      torque_lim = mkfloat False inf_bits,
      requested_current_range = flit 60,
      current_control_bandwidth = flit 1000,
      acim_slip_velocity = flit 14.706,
      acim_gain_min_flux = flit 10,
      acim_autoflux_min_Id = flit 10,
      acim_autoflux_enable = False,
      acim_autoflux_attack_gain = flit 10,
      acim_autoflux_decay_gain = flit 1,
      R_wL_FF_enable = False,
      bEMF_FF_enable = False\<rparr>"

definition example_current_control :: CurrentControl_t where
  "example_current_control =
     \<lparr>p_gain = 0,
      i_gain = 0,
      v_current_control_integral_d = 0,
      v_current_control_integral_q = 0,
      Ibus = 0,
      final_v_alpha = 0,
      final_v_beta = 0,
      Id_setpoint = 0,
      Iq_setpoint = 0,
      Iq_measured = 0,
      Id_measured = 0,
      I_measured_report_filter_k = flit 1,
      max_allowed_current = flit 60.75,
      overcurrent_trip_level = flit 67.5,
      acim_rotor_flux = 0,
      async_phase_vel = 0,
      async_phase_offset = 0\<rparr>"

definition example_motor :: Motor where
  "example_motor =
     \<lparr>config = example_config,
      current_control = example_current_control,
      error = {},
      is_calibrated = False,
      effective_current_lim_val = flit 10,
      phase_current_rev_gain = flit 0.025,
      shunt_conductance = flit 2000,
      current_meas = \<lparr>phB = 0, phC = 0\<rparr>,
      next_timings = (\<lambda>i. 0),
      next_timings_valid = False,
      timing_log = (\<lambda>i. 0),
      armed_state = ARMED,
      axis_error = {},
      controller_resets = 0,
      brake_current_updates = 0,
      oscilloscope = (\<lambda>i. 0),
      oscilloscope_pos = 0,
      osc_ready = False,
      osc_capturing = False\<rparr>"

text \<open>The example motor as an induction motor: its rotor flux estimate is 0.\<close>

definition example_acim_motor :: Motor where
  "example_acim_motor = example_motor\<lparr>config := example_config\<lparr>motor_type := MOTOR_TYPE_ACIM\<rparr>\<rparr>"

text \<open>
  The example motor with its d-axis integrator wound up to the bus voltage, and with an
  integral gain.
\<close>

definition example_wound_up_motor :: Motor where
  "example_wound_up_motor =
     example_motor\<lparr>current_control := example_current_control
       \<lparr>v_current_control_integral_d := flit 24, i_gain := flit 16\<rparr>\<rparr>"

definition example_tuned_motor :: Motor where
  "example_tuned_motor =
     example_motor\<lparr>current_control := example_current_control\<lparr>i_gain := flit 16\<rparr>\<rparr>"

text \<open>
  A tick with no phase current, at a bus voltage of 24 V, and the motor after one tick of the
  loop of \<^verbatim>\<open>measure_phase_inductance\<close> on it.
\<close>

definition zero_tick :: Tick where
  "zero_tick = (\<lparr>phB = 0, phC = 0\<rparr>, flit 24)"

definition zero_tick_state :: "Motor \<Rightarrow> Motor" where
  "zero_tick_state m =
     log_timing (example_board\<lparr>vbus_voltage := snd zero_tick\<rparr>) TIMING_LOG_MEAS_L
       (log_timing example_board TIMING_LOG_FOC_VOLTAGE
          (m\<lparr>current_meas := fst zero_tick,
             next_timings := (next_timings m)(0 := 218, 1 := 1750, 2 := 3500),
             next_timings_valid := True\<rparr>))"

section \<open>Properties\<close>

subsection \<open>Evaluating floats\<close>

text \<open>
  The equations by which a float operation on literal bit patterns is computed.  The
  arithmetic operations unfold on literals only, so that a term with a variable stays small.
\<close>

lemma floorlog2_numeral [simp]:
  "floorlog 2 (numeral (Num.Bit0 n)) = floorlog 2 (numeral n) + 1"
  "floorlog 2 (numeral (Num.Bit1 n)) = floorlog 2 (numeral n) + 1"
  "floorlog 2 (numeral Num.One) = 1"
  "floorlog 2 1 = 1"
  "floorlog 2 0 = 0"
  "floorlog 2 (Suc 0) = 1"
  by (subst compute_floorlog, simp add: numeral_Bit0_div_2 numeral_Bit1_div_2 compute_floorlog)+

lemmas float_bits_eval = fsign_def fmag_def inf_bits_def is_nan_def is_inf_def mkfloat_def qnan_def
  scaled_mag_def valmag_def fval_def rhe_def rhe_at_def round_ulp_def round_scaled_def round_mag_def
  fround_def flit_def float_of_int_def fneg_def std_abs_def fsub_def fkey_def flt_def fgt_def
  fge_def std_min_def std_max_def std_clamp_def SQ_def

lemmas float_arith_eval =
  fadd_def [of "numeral a" "numeral b" for a b] fadd_def [of 0 "numeral b" for b]
  fadd_def [of "numeral a" 0 for a] fadd_def [of 0 0]
  fmul_def [of "numeral a" "numeral b" for a b] fmul_def [of 0 "numeral b" for b]
  fmul_def [of "numeral a" 0 for a] fmul_def [of 0 0]
  fdiv_def [of "numeral a" "numeral b" for a b] fdiv_def [of 0 "numeral b" for b]
  fdiv_def [of "numeral a" 0 for a] fdiv_def [of 0 0]

lemmas float_sqrt_eval = std_sqrt_def [of "numeral a" for a] std_sqrt_def [of 0]
  sqrt_mag_def sqrt_sticky_def isqrt_step_def isqrt.simps [of "numeral a" for a] isqrt.simps [of 0]

text \<open>
  The literals of the source and of the examples, rounded: known values of IEEE binary32
  (\<^verbatim>\<open>0.1f\<close> is \<^verbatim>\<open>0x3DCCCCCD\<close>, \<^verbatim>\<open>0.99f\<close> is \<^verbatim>\<open>0x3F7D70A4\<close>).
\<close>

lemma flit_values:
  "flit 24 = 0x41C00000" "flit 0.000125 = 0x3903126F" "flit 0.57735026919 = 0x3F13CD3A"
  "flit 0.86602540378 = 0x3F5DB3D7" "flit 0.0625 = 0x3D800000" "flit 0.5 = 0x3F000000"
  "flit 1 = 0x3F800000" "flit 40 = 0x42200000" "flit 10 = 0x41200000" "flit 2 = 0x40000000"
  "flit 0.04 = 0x3D23D70A" "flit 8 = 0x41000000" "flit 60 = 0x42700000" "flit 1000 = 0x447A0000"
  "flit 14.706 = 0x416B4BC7" "flit 60.75 = 0x42730000" "flit 67.5 = 0x42870000"
  "flit 0.025 = 0x3CCCCCCD" "flit 2000 = 0x44FA0000" "flit 7 = 0x40E00000" "flit 100 = 0x42C80000"
  "flit (- 10) = 0xC1200000" "flit 0.1 = 0x3DCCCCCD" "flit 0.99 = 0x3F7D70A4"
  "flit 0.80 = 0x3F4CCCCD" "flit 1.5 = 0x3FC00000" "flit 3 = 0x40400000" "flit 0.90 = 0x3F666666"
  "flit 1.35 = 0x3FACCCCD" "flit 0.98 = 0x3F7AE148" "flit 0.000002 = 0x360637BD"
  "flit 0.004 = 0x3B83126F" "flit (- 2) = 0xC0000000" "flit 16 = 0x41800000"
  by (simp_all add: float_bits_eval)

lemma mkfloat_inf: "mkfloat False inf_bits = 0x7F800000"
  by (simp add: mkfloat_def inf_bits_def)

text \<open>The example inputs with their literals rounded.\<close>

lemmas example_defs =
  example_board_def [unfolded flit_values]
  example_config_def [unfolded flit_values mkfloat_inf]
  example_current_control_def [unfolded flit_values]
  example_motor_def [unfolded flit_values]

subsection \<open>Bit patterns, rounding and order\<close>

lemma fmag_less: "fmag x < 2 ^ 31"
  by (simp add: fmag_def)

lemma fmag_less_numeral [simp]: "fmag x < 2147483648"
  using fmag_less [of x] by simp

lemma unat_mkfloat:
  "b < 2 ^ 31 \<Longrightarrow> unat (mkfloat s b) = (if s then 2 ^ 31 else 0) + b"
  unfolding mkfloat_def unat_of_nat by (cases s) simp_all

lemma fmag_mkfloat [simp]: "b < 2147483648 \<Longrightarrow> fmag (mkfloat s b) = b"
  by (simp add: fmag_def unat_mkfloat)

lemma fsign_mkfloat [simp]: "b < 2147483648 \<Longrightarrow> fsign (mkfloat s b) = s"
  by (simp add: fsign_def unat_mkfloat)

lemma inf_bits_less: "inf_bits < 2 ^ 31"
  by (simp add: inf_bits_def)

lemma round_ulp_le_inf: "round_ulp t k \<le> inf_bits"
  by (simp add: round_ulp_def)

lemma round_mag_le_inf: "round_mag a \<le> inf_bits"
  by (simp add: round_mag_def round_scaled_def round_ulp_le_inf)

lemma round_mag_less [simp]: "round_mag a < 2147483648"
  using round_mag_le_inf [of a] inf_bits_less by simp

text \<open>
  Rounding never passes a representable bound: a real that is at most the value of the
  magnitude \<open>b\<close> rounds to a magnitude that is at most \<open>b\<close>.
\<close>

lemma rhe_le:
  assumes "0 \<le> q" and "q \<le> real n"
  shows "rhe q \<le> n"
proof -
  have fl: "\<lfloor>q\<rfloor> \<le> int n"
    using assms by (simp add: floor_le_iff)
  show ?thesis
  proof (cases "q - of_int \<lfloor>q\<rfloor> < 1 / 2 \<or> (q - of_int \<lfloor>q\<rfloor> = 1 / 2 \<and> even \<lfloor>q\<rfloor>)")
    case True
    then have "rhe q = nat \<lfloor>q\<rfloor>"
      by (simp add: rhe_def rhe_at_def)
    with fl show ?thesis by simp
  next
    case False
    then have r: "rhe q = nat \<lfloor>q\<rfloor> + 1"
      by (simp add: rhe_def rhe_at_def)
    from False have "of_int \<lfloor>q\<rfloor> < q" by linarith
    with assms have "of_int \<lfloor>q\<rfloor> < real n" by linarith
    then have "\<lfloor>q\<rfloor> < int n" by linarith
    moreover have "0 \<le> \<lfloor>q\<rfloor>" using assms(1) by simp
    ultimately show ?thesis using r by linarith
  qed
qed

lemma scaled_mag_decomp:
  fixes b :: nat
  shows "scaled_mag b
     = (if b div 2 ^ 23 = 0 then b else 2 ^ 23 + b mod 2 ^ 23) * 2 ^ (b div 2 ^ 23 - 1)"
proof (cases "b div 2 ^ 23 = 0")
  case True
  then have "b < 2 ^ 23"
    by (simp add: div_eq_0_iff)
  with True show ?thesis by (simp add: scaled_mag_def)
next
  case False
  then show ?thesis by (simp add: scaled_mag_def)
qed

lemma bits_decomp:
  fixes b :: nat
  shows "b = (b div 2 ^ 23 - 1) * 2 ^ 23
             + (if b div 2 ^ 23 = 0 then b else 2 ^ 23 + b mod 2 ^ 23)"
proof (cases "b div 2 ^ 23 = 0")
  case True
  then show ?thesis by simp
next
  case False
  define K where "K = b div 2 ^ 23"
  from False have K: "K = Suc (K - 1)" by (simp add: K_def)
  have "K * 2 ^ 23 = (K - 1) * 2 ^ 23 + 2 ^ 23"
    by (subst K) simp
  moreover have "b = K * 2 ^ 23 + b mod 2 ^ 23" by (simp add: K_def)
  ultimately show ?thesis using False by (simp add: K_def)
qed


lemma round_scaled_le:
  assumes t0: "0 \<le> t" and tb: "t \<le> real (scaled_mag b)"
  shows "round_scaled t \<le> b"
proof -
  define K where "K = b div 2 ^ 23 - 1"
  define M where "M = (if b div 2 ^ 23 = 0 then b else 2 ^ 23 + b mod 2 ^ 23)"
  define k where "k = floorlog 2 (nat \<lfloor>t\<rfloor>) - 24"
  have T: "scaled_mag b = M * 2 ^ K"
    unfolding K_def M_def by (rule scaled_mag_decomp)
  have B: "b = K * 2 ^ 23 + M"
    unfolding K_def M_def by (rule bits_decomp)
  have M24: "M < 2 ^ 24"
  proof (cases "b div 2 ^ 23 = 0")
    case True
    then have "b < 2 ^ 23" by (simp add: div_eq_0_iff)
    with True show ?thesis by (simp add: M_def)
  next
    case False
    have "b mod 2 ^ 23 < 2 ^ 23" by simp
    with False show ?thesis by (simp add: M_def)
  qed
  have M23: "2 ^ 23 \<le> M" if "0 < K"
  proof -
    from that have "b div 2 ^ 23 \<noteq> 0" by (auto simp: K_def)
    then show ?thesis by (simp add: M_def)
  qed
  have nT: "nat \<lfloor>t\<rfloor> \<le> scaled_mag b"
    using tb t0 by (simp add: nat_le_iff floor_le_iff)
  have "scaled_mag b < 2 ^ 24 * 2 ^ K"
    unfolding T using M24 by simp
  then have "scaled_mag b < 2 ^ (24 + K)"
    by (simp add: power_add)
  then have "floorlog 2 (scaled_mag b) \<le> 24 + K"
    by (intro floorlog_leI) simp_all
  with floorlog_mono [OF nT, of 2] have fl: "floorlog 2 (nat \<lfloor>t\<rfloor>) \<le> 24 + K"
    by linarith
  then have kK: "k \<le> K" by (simp add: k_def)
  have pos: "0 \<le> t / 2 ^ k" using t0 by simp
  have "k * 2 ^ 23 + rhe (t / 2 ^ k) \<le> b"
  proof (cases "k = K")
    case True
    have "t / 2 ^ k \<le> real M"
      using tb unfolding T True by (simp add: field_simps)
    then have "rhe (t / 2 ^ k) \<le> M" using pos by (intro rhe_le) simp_all
    with True B show ?thesis by simp
  next
    case False
    with kK have lt: "k < K" by simp
    have "floorlog 2 (nat \<lfloor>t\<rfloor>) \<le> k + 24" by (simp add: k_def)
    then have "nat \<lfloor>t\<rfloor> < 2 ^ (k + 24)"
      by (rule floorlog_leD) simp
    then have "\<lfloor>t\<rfloor> < 2 ^ (k + 24)"
      using t0 by (simp add: nat_less_iff)
    then have "t < 2 ^ (k + 24)"
      by (simp add: floor_less_iff)
    then have "t / 2 ^ k \<le> real (2 ^ 24)"
      by (simp add: field_simps power_add)
    then have "rhe (t / 2 ^ k) \<le> 2 ^ 24" using pos by (intro rhe_le) simp_all
    then have "k * 2 ^ 23 + rhe (t / 2 ^ k) \<le> (k + 2) * 2 ^ 23" by simp
    also have "\<dots> \<le> (K + 1) * 2 ^ 23" using lt by simp
    also have "\<dots> \<le> K * 2 ^ 23 + M" using M23 lt by simp
    finally show ?thesis using B by simp
  qed
  then show ?thesis
    unfolding round_scaled_def round_ulp_def k_def [symmetric] by simp
qed

lemma round_mag_le:
  assumes "0 \<le> a" and "a \<le> valmag b"
  shows "round_mag a \<le> b"
  unfolding round_mag_def
proof (rule round_scaled_le)
  show "0 \<le> a * 2 ^ 149" using assms(1) by simp
  show "a * 2 ^ 149 \<le> real (scaled_mag b)"
    using assms(2) by (simp add: valmag_def field_simps)
qed


lemma scaled_mag_strict_mono:
  assumes "a < b"
  shows "scaled_mag a < scaled_mag b"
proof -
  from assms have le: "a div 2 ^ 23 \<le> b div 2 ^ 23"
    by (simp add: div_le_mono)
  show ?thesis
  proof (cases "a div 2 ^ 23 = b div 2 ^ 23")
    case True
    have "a = a div 2 ^ 23 * 2 ^ 23 + a mod 2 ^ 23" "b = b div 2 ^ 23 * 2 ^ 23 + b mod 2 ^ 23"
      by simp_all
    with assms True have "a mod 2 ^ 23 < b mod 2 ^ 23"
      by (metis nat_add_left_cancel_less)
    with True assms show ?thesis by (simp add: scaled_mag_def)
  next
    case False
    with le have lt: "a div 2 ^ 23 < b div 2 ^ 23" by simp
    then have b0: "b div 2 ^ 23 \<noteq> 0" by simp
    have sb: "scaled_mag b = (2 ^ 23 + b mod 2 ^ 23) * 2 ^ (b div 2 ^ 23 - 1)"
      using b0 by (simp add: scaled_mag_def)
    have lower: "(2::nat) ^ (23 + (b div 2 ^ 23 - 1)) \<le> scaled_mag b"
      unfolding sb power_add by (rule mult_le_mono1) simp
    show ?thesis
    proof (cases "a div 2 ^ 23 = 0")
      case True
      then have "scaled_mag a < 2 ^ 23"
        by (simp add: scaled_mag_def)
      also have "(2::nat) ^ 23 \<le> 2 ^ (23 + (b div 2 ^ 23 - 1))"
        by (rule power_increasing) simp_all
      finally show ?thesis using lower by linarith
    next
      case False
      have "a mod 2 ^ 23 < 2 ^ 23" by simp
      then have "2 ^ 23 + a mod 2 ^ 23 < (2::nat) ^ 24" by simp
      then have "(2 ^ 23 + a mod 2 ^ 23) * 2 ^ (a div 2 ^ 23 - 1) < (2::nat) ^ 24 * 2 ^ (a div 2 ^ 23 - 1)"
        by (rule mult_less_mono1) simp
      moreover have "scaled_mag a = (2 ^ 23 + a mod 2 ^ 23) * 2 ^ (a div 2 ^ 23 - 1)"
        using False by (simp add: scaled_mag_def)
      ultimately have "scaled_mag a < 2 ^ (24 + (a div 2 ^ 23 - 1))"
        unfolding power_add by simp
      also have "(2::nat) ^ (24 + (a div 2 ^ 23 - 1)) \<le> 2 ^ (23 + (b div 2 ^ 23 - 1))"
        using lt False by (intro power_increasing) simp_all
      finally show ?thesis using lower by linarith
    qed
  qed
qed

lemma scaled_mag_mono: "a \<le> b \<Longrightarrow> scaled_mag a \<le> scaled_mag b"
  using scaled_mag_strict_mono [of a b] by (cases "a = b") (simp_all add: less_imp_le)

lemma valmag_mono: "a \<le> b \<Longrightarrow> valmag a \<le> valmag b"
  by (simp add: valmag_def scaled_mag_mono divide_right_mono)

lemma valmag_less_iff: "valmag a < valmag b \<longleftrightarrow> a < b"
proof
  assume "valmag a < valmag b"
  then show "a < b"
    using valmag_mono [of b a] by (cases "a < b") simp_all
next
  assume "a < b"
  then have "real (scaled_mag a) < real (scaled_mag b)"
    using scaled_mag_strict_mono by simp
  then show "valmag a < valmag b"
    by (simp add: valmag_def divide_strict_right_mono)
qed

lemma valmag_nonneg: "0 \<le> valmag b"
  by (simp add: valmag_def)

text \<open>The order of the comparisons is the order of the real values.\<close>

lemma fkey_less_iff_fval: "fkey x < fkey y \<longleftrightarrow> fval x < fval y"
proof -
  have z: "valmag 0 = 0" by (simp add: valmag_def scaled_mag_def)
  have pos: "0 < valmag b \<longleftrightarrow> 0 < b" for b
    using valmag_less_iff [of 0 b] z by simp
  show ?thesis
    using valmag_less_iff [of "fmag x" "fmag y"] valmag_less_iff [of "fmag y" "fmag x"]
      pos [of "fmag x"] pos [of "fmag y"] valmag_nonneg [of "fmag x"] valmag_nonneg [of "fmag y"]
    by (auto simp: fkey_def fval_def)
qed

lemma flt_iff_fval: "flt x y \<longleftrightarrow> \<not> is_nan x \<and> \<not> is_nan y \<and> fval x < fval y"
  by (simp add: flt_def fkey_less_iff_fval)

lemma fmul_magnitude_le:
  assumes nn: "\<not> is_nan (fmul x c)" and c1: "valmag (fmag c) \<le> 1"
  shows "fmag (fmul x c) \<le> fmag x"
proof -
  have inf: "valmag inf_bits = 2 ^ 128"
    by (simp add: valmag_def scaled_mag_def inf_bits_def)
  from c1 inf have cfin: "\<not> is_inf c"
    by (auto simp: is_inf_def)
  have qn: "is_nan qnan"
    by (simp add: qnan_def is_nan_def inf_bits_def fmag_def mkfloat_def)
  from nn qn have nx: "\<not> is_nan x" "\<not> is_nan c"
    by (auto simp: fmul_def)
  show ?thesis
  proof (cases "is_inf x")
    case True
    with nn qn nx have "fmul x c = mkfloat (fsign x \<noteq> fsign c) inf_bits"
      by (auto simp: fmul_def split: if_splits)
    then have "fmag (fmul x c) = inf_bits"
      by (simp add: inf_bits_def)
    with True show ?thesis by (simp add: is_inf_def)
  next
    case False
    with cfin nx have "fmul x c = fround (fsign x \<noteq> fsign c) (valmag (fmag x) * valmag (fmag c))"
      by (simp add: fmul_def)
    then have "fmag (fmul x c) = round_mag (valmag (fmag x) * valmag (fmag c))"
      by (simp add: fround_def)
    also have "\<dots> \<le> fmag x"
    proof (rule round_mag_le)
      show "0 \<le> valmag (fmag x) * valmag (fmag c)"
        by (simp add: valmag_nonneg)
      show "valmag (fmag x) * valmag (fmag c) \<le> valmag (fmag x)"
        using c1 valmag_nonneg [of "fmag x"] by (simp add: mult_left_le)
    qed
    finally show ?thesis .
  qed
qed

lemma is_nan_std_abs [simp]: "is_nan (std_abs x) = is_nan x"
  by (simp add: is_nan_def std_abs_def)

lemma fkey_std_abs [simp]: "fkey (std_abs x) = int (fmag x)"
  by (simp add: fkey_def std_abs_def)

lemma fmul_not_greater:
  assumes "valmag (fmag c) \<le> 1"
  shows "\<not> fgt (std_abs (fmul x c)) (std_abs x)"
  using fmul_magnitude_le [OF _ assms, of x]
  by (auto simp: fgt_def flt_def)

lemma fmag_zero [simp]: "fmag 0 = 0"
  by (simp add: fmag_def)

lemma fsign_zero [simp]: "\<not> fsign 0"
  by (simp add: fsign_def)

lemma fmag_std_abs [simp]: "fmag (std_abs x) = fmag x"
  by (simp add: std_abs_def)

lemma fsign_std_abs [simp]: "\<not> fsign (std_abs x)"
  by (simp add: std_abs_def)

lemma is_nan_zero [simp]: "\<not> is_nan 0"
  by (simp add: is_nan_def fmag_def inf_bits_def)

lemma is_inf_zero [simp]: "\<not> is_inf 0"
  by (simp add: is_inf_def fmag_def inf_bits_def)

lemma is_nan_qnan [simp]: "is_nan qnan"
  by (simp add: qnan_def is_nan_def inf_bits_def fmag_def mkfloat_def)

lemma fround_finite:
  assumes "0 \<le> a" and "a \<le> valmag b" and "b < inf_bits"
  shows "\<not> is_nan (fround s a)" and "\<not> is_inf (fround s a)" and "fmag (fround s a) \<le> b"
  using round_mag_le [OF assms(1,2)] assms(3)
  by (simp_all add: fround_def is_nan_def is_inf_def)

lemma float_of_int_sint_bound:
  "fmag (float_of_int (sint (w :: 32 word))) \<le> 0x4F000000"
proof -
  have v: "valmag 0x4F000000 = 2 ^ 31"
    by (simp add: valmag_def scaled_mag_def)
  have "\<bar>sint w\<bar> \<le> 2 ^ 31"
    using sint_range_size [of w] by (simp add: word_size abs_le_iff)
  then have "real_of_int \<bar>sint w\<bar> \<le> real_of_int (2 ^ 31)"
    by (simp only: of_int_le_iff)
  then have "\<bar>real_of_int (sint w)\<bar> \<le> 2 ^ 31"
    by (simp only: of_int_abs of_int_power of_int_numeral)
  with v show ?thesis
    unfolding float_of_int_def
    by (intro fround_finite(3)) (simp_all add: inf_bits_def)
qed

lemma fmul_finite_le:
  assumes "valmag (fmag c) \<le> 1" and "\<not> is_nan c" and "fmag x < inf_bits"
  shows "\<not> is_nan (fmul c x)" and "fmag (fmul c x) \<le> fmag x"
proof -
  have inf: "valmag inf_bits = 2 ^ 128"
    by (simp add: valmag_def scaled_mag_def inf_bits_def)
  from assms(1) inf have cfin: "\<not> is_inf c"
    by (auto simp: is_inf_def)
  from assms(3) have xf: "\<not> is_nan x" "\<not> is_inf x"
    by (simp_all add: is_nan_def is_inf_def)
  with cfin assms(2)
  have eq: "fmul c x = fround (fsign c \<noteq> fsign x) (valmag (fmag c) * valmag (fmag x))"
    by (simp add: fmul_def)
  have le: "valmag (fmag c) * valmag (fmag x) \<le> valmag (fmag x)"
    using assms(1) valmag_nonneg [of "fmag x"] valmag_nonneg [of "fmag c"]
    by (intro mult_left_le_one_le) simp_all
  have nonneg: "0 \<le> valmag (fmag c) * valmag (fmag x)"
    by (simp add: valmag_nonneg)
  show "\<not> is_nan (fmul c x)"
    unfolding eq using fround_finite(1) [OF nonneg le assms(3)] .
  show "fmag (fmul c x) \<le> fmag x"
    unfolding eq using fround_finite(3) [OF nonneg le assms(3)] .
qed

lemma round_mag_zero [simp]: "round_mag 0 = 0"
  by (simp add: round_mag_def round_scaled_def round_ulp_def rhe_def rhe_at_def)

lemma valmag_zero [simp]: "valmag 0 = 0"
  by (simp add: valmag_def scaled_mag_def)

lemma trunc_int_nonneg:
  assumes "\<not> is_nan f" and "\<not> is_inf f" and "0 \<le> fval f"
  shows "trunc_int f = \<lfloor>fval f\<rfloor>"
proof (cases "fsign f")
  case True
  with assms(3) valmag_nonneg [of "fmag f"] have "valmag (fmag f) = 0"
    by (simp add: fval_def)
  with True assms(1,2) show ?thesis
    by (simp add: trunc_int_def fval_def)
next
  case False
  with assms(1,2) show ?thesis
    by (simp add: trunc_int_def fval_def)
qed

subsection \<open>Errors and arming\<close>

lemma set_error_fields:
  "error (set_error e m) = insert e (error m)"
  "axis_error (set_error e m) = insert AXIS_ERROR_MOTOR_FAILED (axis_error m)"
  "armed_state (set_error e m) = DISARMED"
  "brake_current_updates (set_error e m) = Suc (brake_current_updates m)"
  "next_timings (set_error e m) = next_timings m"
  "next_timings_valid (set_error e m) = next_timings_valid m"
  "current_control (set_error e m) = current_control m"
  "config (set_error e m) = config m"
  by (simp_all add: set_error_def update_brake_current_def safety_critical_disarm_motor_pwm_def)

text \<open>
  C7.  After any call to \<^verbatim>\<open>arm()\<close>, whether it returns true or false, both current-control
  integrators, the rotor flux estimate and the bus current estimate are (positive) zero; the
  call returns true exactly when the wait for the current measurement succeeded.
\<close>

theorem arm_resets_current_control:
  "v_current_control_integral_d (current_control (snd (arm hw m))) = 0
   \<and> v_current_control_integral_q (current_control (snd (arm hw m))) = 0
   \<and> acim_rotor_flux (current_control (snd (arm hw m))) = 0
   \<and> Ibus (current_control (snd (arm hw m))) = 0
   \<and> fst (arm hw m) = wait_for_current_meas hw"
  by (simp add: arm_def Let_def reset_current_control_def controller_reset_def
      safety_critical_arm_motor_pwm_def)

subsection \<open>The current limit of \<^verbatim>\<open>FOC_current\<close>\<close>

lemma clarke_park_current_control [simp]:
  "clarke_park hw (m\<lparr>current_control := c\<rparr>) p = clarke_park hw m p"
  by (simp add: clarke_park_def)

text \<open>
  C1, as amended.  When the measured d/q currents exceed the current limit plus its margin,
  \<^verbatim>\<open>FOC_current\<close> returns false, disarms PWM, notifies the axis and writes neither
  \<^verbatim>\<open>next_timings\<close> nor \<^verbatim>\<open>next_timings_valid\<close>.  It sets \<^verbatim>\<open>CURRENT_LIMIT_VIOLATION\<close> unless the
  current-sense saturation check, which comes first, fires: then the bit it sets is
  \<^verbatim>\<open>CURRENT_SENSE_SATURATION\<close>.
\<close>

theorem FOC_current_limit_violation:
  assumes "current_limit_violated hw m I_phase"
  shows "fst (FOC_current hw Id_des Iq_des I_phase pwm_phase phase_vel m) = False
     \<and> armed_state (snd (FOC_current hw Id_des Iq_des I_phase pwm_phase phase_vel m)) = DISARMED
     \<and> AXIS_ERROR_MOTOR_FAILED
          \<in> axis_error (snd (FOC_current hw Id_des Iq_des I_phase pwm_phase phase_vel m))
     \<and> next_timings (snd (FOC_current hw Id_des Iq_des I_phase pwm_phase phase_vel m))
          = next_timings m
     \<and> next_timings_valid (snd (FOC_current hw Id_des Iq_des I_phase pwm_phase phase_vel m))
          = next_timings_valid m
     \<and> (if current_sense_saturated m then ERROR_CURRENT_SENSE_SATURATION
         else ERROR_CURRENT_LIMIT_VIOLATION)
          \<in> error (snd (FOC_current hw Id_des Iq_des I_phase pwm_phase phase_vel m))"
proof (cases "current_sense_saturated m")
  case True
  then show ?thesis
    by (simp add: FOC_current_def Let_def current_sense_saturated_def set_error_fields)
next
  case False
  with assms show ?thesis
    by (simp add: FOC_current_def Let_def split_def current_limit_violated_def
        current_sense_saturated_def set_error_fields)
qed

text \<open>
  With phase currents of -10 A each and the angle 0, \<open>Id = 20\<close> and \<open>Iq = 0\<close>: the square
  400 exceeds \<open>(10 + 8)\<^sup>2\<close>, and the trip level 67.5 A is not reached.
\<close>

lemma example_over_limit:
  "current_limit_violated example_board
     (example_motor\<lparr>current_meas := \<lparr>phB = flit (- 10), phC = flit (- 10)\<rparr>\<rparr>) 0"
  by (simp add: current_limit_violated_def clarke_park_def example_defs float_bits_eval
      float_arith_eval)

lemma example_not_saturated:
  "\<not> current_sense_saturated
     (example_motor\<lparr>current_meas := \<lparr>phB = flit (- 10), phC = flit (- 10)\<rparr>\<rparr>)"
  by (simp add: current_sense_saturated_def example_defs float_bits_eval)

theorem FOC_current_limit_violation_witness:
  "current_limit_violated example_board
     (example_motor\<lparr>current_meas := \<lparr>phB = flit (- 10), phC = flit (- 10)\<rparr>\<rparr>) 0
   \<and> fst (FOC_current example_board 0 (flit 1) 0 0 0
        (example_motor\<lparr>current_meas := \<lparr>phB = flit (- 10), phC = flit (- 10)\<rparr>\<rparr>)) = False
   \<and> ERROR_CURRENT_LIMIT_VIOLATION \<in> error (snd (FOC_current example_board 0 (flit 1) 0 0 0
        (example_motor\<lparr>current_meas := \<lparr>phB = flit (- 10), phC = flit (- 10)\<rparr>\<rparr>)))
   \<and> armed_state (snd (FOC_current example_board 0 (flit 1) 0 0 0
        (example_motor\<lparr>current_meas := \<lparr>phB = flit (- 10), phC = flit (- 10)\<rparr>\<rparr>))) = DISARMED"
  using FOC_current_limit_violation [OF example_over_limit, of 0 "flit 1" 0 0]
    example_over_limit example_not_saturated
  by simp

text \<open>
  The claim as first stated fails where the saturation check fires first.  With
  \<open>phB = 100\<close> A the trip level 67.5 A is exceeded, and so is the current limit
  (\<open>Id = -100\<close>); the call sets \<^verbatim>\<open>CURRENT_SENSE_SATURATION\<close> and nothing else.
\<close>

theorem FOC_current_saturation_first:
  "current_limit_violated example_board
     (example_motor\<lparr>current_meas := \<lparr>phB = flit 100, phC = 0\<rparr>\<rparr>) 0
   \<and> ERROR_CURRENT_LIMIT_VIOLATION \<notin> error (snd (FOC_current example_board 0 (flit 1) 0 0 0
        (example_motor\<lparr>current_meas := \<lparr>phB = flit 100, phC = 0\<rparr>\<rparr>)))"
proof -
  have sat: "current_sense_saturated
      (example_motor\<lparr>current_meas := \<lparr>phB = flit 100, phC = 0\<rparr>,
         current_control := (current_control example_motor)\<lparr>Iq_setpoint := flit 1\<rparr>\<rparr>)"
    by (simp add: current_sense_saturated_def example_defs float_bits_eval)
  have lim: "current_limit_violated example_board
     (example_motor\<lparr>current_meas := \<lparr>phB = flit 100, phC = 0\<rparr>\<rparr>) 0"
    by (simp add: current_limit_violated_def clarke_park_def example_defs float_bits_eval
      float_arith_eval)
  have "error (snd (FOC_current example_board 0 (flit 1) 0 0 0
        (example_motor\<lparr>current_meas := \<lparr>phB = flit 100, phC = 0\<rparr>\<rparr>)))
        = {ERROR_CURRENT_SENSE_SATURATION}"
    using sat by (simp add: FOC_current_def Let_def set_error_fields) (simp add: example_defs)
  with lim show ?thesis by simp
qed

subsection \<open>Failing paths and \<^verbatim>\<open>set_error\<close>\<close>

text \<open>
  C2.  \<^verbatim>\<open>setup()\<close> has a failing path that does not go through \<^verbatim>\<open>set_error\<close>: when the
  gate driver initialises and the op-amp refuses the gain, it returns false and leaves the
  motor as it was.  On the example motor (no error, armed) the call returns false with no
  error bit set, the axis not notified and PWM still armed.
\<close>

theorem setup_gain_failure_sets_no_error:
  "fst (Motor_setup (example_board\<lparr>opamp_set_gain := (\<lambda>g. (False, qnan))\<rparr>) example_motor) = False
   \<and> error (snd (Motor_setup (example_board\<lparr>opamp_set_gain := (\<lambda>g. (False, qnan))\<rparr>)
        example_motor)) = {}
   \<and> axis_error (snd (Motor_setup (example_board\<lparr>opamp_set_gain := (\<lambda>g. (False, qnan))\<rparr>)
        example_motor)) = {}
   \<and> armed_state (snd (Motor_setup (example_board\<lparr>opamp_set_gain := (\<lambda>g. (False, qnan))\<rparr>)
        example_motor)) = ARMED"
  by (simp add: Motor_setup_def Let_def example_defs)

text \<open>The other failing path of calibration that sets no error: a motor type outside the list.\<close>

lemma run_calibration_unlisted_type:
  "motor_type (config m) = MOTOR_TYPE_UNLISTED \<Longrightarrow> run_calibration hw ticks m = Some (False, m, ticks)"
  by (simp add: run_calibration_def)

subsection \<open>Enqueueing modulation timings\<close>

lemma enqueue_modulation_timings_frame [simp]:
  "current_control (snd (enqueue_modulation_timings hw a b m)) = current_control m"
  "config (snd (enqueue_modulation_timings hw a b m)) = config m"
  by (simp_all add: enqueue_modulation_timings_def set_error_fields split_def Let_def)

text \<open>
  C3.  With \<open>(tA, tB, tC, success)\<close> the answer of \<^verbatim>\<open>SVM\<close>: if either input is NaN the call
  returns false with \<^verbatim>\<open>MODULATION_IS_NAN\<close> set, the axis notified and PWM disarmed; else if
  \<^verbatim>\<open>SVM\<close> fails it returns false with \<^verbatim>\<open>MODULATION_MAGNITUDE\<close> set, the axis notified and PWM
  disarmed; in both cases \<^verbatim>\<open>next_timings\<close> and \<^verbatim>\<open>next_timings_valid\<close> are left as they were.
  Otherwise it writes the three entries of \<^verbatim>\<open>next_timings\<close>, sets \<^verbatim>\<open>next_timings_valid\<close>,
  returns true and sets no error.
\<close>

theorem enqueue_modulation_timings_cases:
  assumes "SVM hw mod_alpha mod_beta = (tA, tB, tC, success)"
  shows
   "(is_nan mod_alpha \<or> is_nan mod_beta \<longrightarrow>
      fst (enqueue_modulation_timings hw mod_alpha mod_beta m) = False
      \<and> ERROR_MODULATION_IS_NAN \<in> error (snd (enqueue_modulation_timings hw mod_alpha mod_beta m))
      \<and> AXIS_ERROR_MOTOR_FAILED
           \<in> axis_error (snd (enqueue_modulation_timings hw mod_alpha mod_beta m))
      \<and> armed_state (snd (enqueue_modulation_timings hw mod_alpha mod_beta m)) = DISARMED
      \<and> next_timings (snd (enqueue_modulation_timings hw mod_alpha mod_beta m)) = next_timings m
      \<and> next_timings_valid (snd (enqueue_modulation_timings hw mod_alpha mod_beta m))
           = next_timings_valid m)
    \<and> (\<not> is_nan mod_alpha \<and> \<not> is_nan mod_beta \<and> \<not> success \<longrightarrow>
      fst (enqueue_modulation_timings hw mod_alpha mod_beta m) = False
      \<and> ERROR_MODULATION_MAGNITUDE
           \<in> error (snd (enqueue_modulation_timings hw mod_alpha mod_beta m))
      \<and> AXIS_ERROR_MOTOR_FAILED
           \<in> axis_error (snd (enqueue_modulation_timings hw mod_alpha mod_beta m))
      \<and> armed_state (snd (enqueue_modulation_timings hw mod_alpha mod_beta m)) = DISARMED
      \<and> next_timings (snd (enqueue_modulation_timings hw mod_alpha mod_beta m)) = next_timings m
      \<and> next_timings_valid (snd (enqueue_modulation_timings hw mod_alpha mod_beta m))
           = next_timings_valid m)
    \<and> (\<not> is_nan mod_alpha \<and> \<not> is_nan mod_beta \<and> success \<longrightarrow>
      fst (enqueue_modulation_timings hw mod_alpha mod_beta m) = True
      \<and> next_timings (snd (enqueue_modulation_timings hw mod_alpha mod_beta m)) 0
           = uint16_of_float (fmul tA (float_of_int (int (TIM_1_8_PERIOD_CLOCKS hw))))
      \<and> next_timings (snd (enqueue_modulation_timings hw mod_alpha mod_beta m)) 1
           = uint16_of_float (fmul tB (float_of_int (int (TIM_1_8_PERIOD_CLOCKS hw))))
      \<and> next_timings (snd (enqueue_modulation_timings hw mod_alpha mod_beta m)) 2
           = uint16_of_float (fmul tC (float_of_int (int (TIM_1_8_PERIOD_CLOCKS hw))))
      \<and> next_timings_valid (snd (enqueue_modulation_timings hw mod_alpha mod_beta m))
      \<and> error (snd (enqueue_modulation_timings hw mod_alpha mod_beta m)) = error m
      \<and> armed_state (snd (enqueue_modulation_timings hw mod_alpha mod_beta m)) = armed_state m)"
  using assms by (simp add: enqueue_modulation_timings_def set_error_fields)

theorem enqueue_modulation_timings_cases_witness:
  "fst (enqueue_modulation_timings example_board qnan 0 example_motor) = False
   \<and> ERROR_MODULATION_IS_NAN \<in> error (snd (enqueue_modulation_timings example_board qnan 0 example_motor))
   \<and> next_timings_valid (snd (enqueue_modulation_timings example_board qnan 0 example_motor))
        = next_timings_valid example_motor
   \<and> fst (enqueue_modulation_timings (example_board\<lparr>SVM := (\<lambda>a b. (0, 0, 0, False))\<rparr>)
        (flit 1) (flit 1) example_motor) = False
   \<and> ERROR_MODULATION_MAGNITUDE \<in> error (snd (enqueue_modulation_timings
        (example_board\<lparr>SVM := (\<lambda>a b. (0, 0, 0, False))\<rparr>) (flit 1) (flit 1) example_motor))
   \<and> fst (enqueue_modulation_timings example_board 0 0 example_motor) = True
   \<and> next_timings_valid (snd (enqueue_modulation_timings example_board 0 0 example_motor))"
proof -
  have nan: "is_nan qnan" "\<not> is_nan 0" "\<not> is_nan (flit 1)"
    by (simp_all add: float_bits_eval)
  have svm: "SVM example_board 0 0 = (flit 0.0625, flit 0.5, flit 1, True)"
    "SVM example_board qnan 0 = (flit 0.0625, flit 0.5, flit 1, True)"
    "SVM (example_board\<lparr>SVM := (\<lambda>a b. (0, 0, 0, False))\<rparr>) (flit 1) (flit 1) = (0, 0, 0, False)"
    by (simp_all add: example_board_def)
  show ?thesis
    using enqueue_modulation_timings_cases [OF svm(2), of example_motor]
      enqueue_modulation_timings_cases [OF svm(3), of example_motor]
      enqueue_modulation_timings_cases [OF svm(1), of example_motor] nan
    by simp
qed

subsection \<open>The d-axis setpoint in \<^verbatim>\<open>update\<close>\<close>

lemma enqueue_voltage_timings_frame [simp]:
  "current_control (snd (enqueue_voltage_timings hw a b m)) = current_control m"
  "config (snd (enqueue_voltage_timings hw a b m)) = config m"
  by (simp_all add: enqueue_voltage_timings_def log_timing_def split_def Let_def)

lemma FOC_voltage_frame [simp]:
  "current_control (snd (FOC_voltage hw v_d v_q pwm_phase m)) = current_control m"
  "config (snd (FOC_voltage hw v_d v_q pwm_phase m)) = config m"
  by (simp_all add: FOC_voltage_def Let_def)

lemma oscilloscope_capture_frame [simp]:
  "current_control (oscilloscope_capture hw x y m) = current_control m"
  "config (oscilloscope_capture hw x y m) = config m"
  by (simp_all add: oscilloscope_capture_def Let_def)

lemma log_timing_frame [simp]:
  "current_control (log_timing hw i m) = current_control m"
  "config (log_timing hw i m) = config m"
  by (simp_all add: log_timing_def)

lemma modulation_saturation_frame:
  "Id_setpoint (snd (snd (modulation_saturation hw ictrl e_d e_q m_d m_q))) = Id_setpoint ictrl"
  "async_phase_vel (snd (snd (modulation_saturation hw ictrl e_d e_q m_d m_q))) = async_phase_vel ictrl"
  by (simp_all add: modulation_saturation_def)

lemma FOC_current_Id_setpoint:
  "Id_setpoint (current_control (snd (FOC_current hw Id_des Iq_des I_phase pwm_phase phase_vel m)))
     = Id_setpoint (current_control m)"
  by (simp add: FOC_current_def Let_def split_def set_error_fields modulation_saturation_frame)

lemma acim_update_Id_setpoint:
  "\<not> acim_autoflux_enable (config m) \<Longrightarrow>
     Id_setpoint (current_control (fst (acim_update hw ilim i_d i_q phase phase_vel m)))
       = Id_setpoint (current_control m)"
  by (simp add: acim_update_def Let_def)

text \<open>
  C10.  Unless the motor is an induction motor with auto-flux enabled, \<^verbatim>\<open>update\<close> leaves
  the stored \<^verbatim>\<open>Id_setpoint\<close> as it was.  For a high-current motor the call is the call of
  \<^verbatim>\<open>FOC_current\<close>, and for a gimbal motor the call of \<^verbatim>\<open>FOC_voltage\<close>, whose d-axis argument
  is the stored \<^verbatim>\<open>Id_setpoint\<close> clamped to plus or minus the effective current limit.
\<close>

theorem update_keeps_Id_setpoint:
  assumes "\<not> (motor_type (config m) = MOTOR_TYPE_ACIM \<and> acim_autoflux_enable (config m))"
  shows "Id_setpoint (current_control (snd (update hw torque_setpoint phase phase_vel m)))
           = Id_setpoint (current_control m)
    \<and> (motor_type (config m) = MOTOR_TYPE_HIGH_CURRENT \<longrightarrow>
         update hw torque_setpoint phase phase_vel m =
           FOC_current hw
             (std_clamp (Id_setpoint (current_control m))
                (fneg (effective_current_lim_val m)) (effective_current_lim_val m))
             (std_clamp (current_setpoint m torque_setpoint)
                (fneg (effective_current_lim_val m)) (effective_current_lim_val m))
             (fmul phase (float_of_int (direction (config m))))
             (fadd (fmul phase (float_of_int (direction (config m))))
                   (fmul (fmul (flit 1.5) (current_meas_period hw))
                         (fmul phase_vel (float_of_int (direction (config m))))))
             (fmul phase_vel (float_of_int (direction (config m))))
             m)
    \<and> (motor_type (config m) = MOTOR_TYPE_GIMBAL \<longrightarrow>
         update hw torque_setpoint phase phase_vel m =
           FOC_voltage hw
             (std_clamp (Id_setpoint (current_control m))
                (fneg (effective_current_lim_val m)) (effective_current_lim_val m))
             (std_clamp (current_setpoint m torque_setpoint)
                (fneg (effective_current_lim_val m)) (effective_current_lim_val m))
             (fadd (fmul phase (float_of_int (direction (config m))))
                   (fmul (fmul (flit 1.5) (current_meas_period hw))
                         (fmul phase_vel (float_of_int (direction (config m))))))
             m)"
proof (cases "motor_type (config m)")
  case MOTOR_TYPE_HIGH_CURRENT
  then show ?thesis
    by (simp add: update_def Let_def FOC_current_Id_setpoint)
next
  case MOTOR_TYPE_GIMBAL
  then show ?thesis
    by (simp add: update_def Let_def)
next
  case MOTOR_TYPE_ACIM
  with assms have "\<not> acim_autoflux_enable (config m)" by simp
  with MOTOR_TYPE_ACIM show ?thesis
    by (simp add: update_def Let_def split_def FOC_current_Id_setpoint acim_update_Id_setpoint)
next
  case MOTOR_TYPE_UNLISTED
  then show ?thesis
    by (simp add: update_def Let_def set_error_fields)
qed

theorem update_keeps_Id_setpoint_witness:
  "\<not> (motor_type (config example_motor) = MOTOR_TYPE_ACIM
        \<and> acim_autoflux_enable (config example_motor))
   \<and> Id_setpoint (current_control (snd (update example_board (flit 0.04) 0 0 example_motor)))
       = Id_setpoint (current_control example_motor)
   \<and> \<not> (motor_type (config (example_motor\<lparr>config := example_config\<lparr>motor_type := MOTOR_TYPE_ACIM\<rparr>\<rparr>))
            = MOTOR_TYPE_ACIM
        \<and> acim_autoflux_enable
            (config (example_motor\<lparr>config := example_config\<lparr>motor_type := MOTOR_TYPE_ACIM\<rparr>\<rparr>)))
   \<and> Id_setpoint (current_control (snd (update example_board (flit 0.04) 0 0
         (example_motor\<lparr>config := example_config\<lparr>motor_type := MOTOR_TYPE_ACIM\<rparr>\<rparr>))))
       = Id_setpoint (current_control example_motor)"
proof -
  have h1: "\<not> (motor_type (config example_motor) = MOTOR_TYPE_ACIM
        \<and> acim_autoflux_enable (config example_motor))"
    by (simp add: example_defs)
  have h2: "\<not> (motor_type (config (example_motor\<lparr>config := example_config\<lparr>motor_type := MOTOR_TYPE_ACIM\<rparr>\<rparr>))
            = MOTOR_TYPE_ACIM
        \<and> acim_autoflux_enable
            (config (example_motor\<lparr>config := example_config\<lparr>motor_type := MOTOR_TYPE_ACIM\<rparr>\<rparr>)))"
    by (simp add: example_defs)
  show ?thesis
    using update_keeps_Id_setpoint [OF h1, of example_board "flit 0.04" 0 0]
      update_keeps_Id_setpoint [OF h2, of example_board "flit 0.04" 0 0] h1 h2
    by simp
qed

subsection \<open>The effective current limit\<close>

lemma std_min_chain_not_greater:
  "\<not> fgt (std_min (std_min (std_min a b) c) d) a"
  "\<not> fgt (std_min (std_min (std_min a b) c) d) b"
  "\<not> fgt (std_min (std_min (std_min a b) c) d) c"
  "\<not> fgt (std_min (std_min (std_min a b) c) d) d"
  by (auto simp: std_min_def fgt_def flt_def)

lemma std_min_chain_least:
  assumes "\<not> is_nan a" "\<not> is_nan b" "\<not> is_nan c" "\<not> is_nan d"
  shows "std_min (std_min (std_min a b) c) d \<in> {a, b, c, d}"
    and "fge a (std_min (std_min (std_min a b) c) d)"
    and "fge b (std_min (std_min (std_min a b) c) d)"
    and "fge c (std_min (std_min (std_min a b) c) d)"
    and "fge d (std_min (std_min (std_min a b) c) d)"
  using assms by (auto simp: std_min_def fge_def flt_def)

text \<open>
  C5.  \<^verbatim>\<open>effective_current_lim()\<close> returns, and stores, the \<^verbatim>\<open>std::min\<close> of the configured
  limit, the hardware cap (\<open>0.98 \<sqdot> one_by_sqrt3 \<sqdot> vbus_voltage\<close> for a gimbal motor,
  \<^verbatim>\<open>max_allowed_current\<close> otherwise) and the two thermistor caps.  The result is never
  greater than any of the four; when none of them is NaN it is one of them and each of them
  is greater than or equal to it.
\<close>

theorem effective_current_lim_is_min:
  "fst (effective_current_lim hw m)
     = std_min (std_min (std_min (current_lim (config m)) (hw_cap hw m))
                  (motor_thermistor_get_current_limit hw (current_lim (config m))))
         (fet_thermistor_get_current_limit hw (current_lim (config m)))
   \<and> effective_current_lim_val (snd (effective_current_lim hw m)) = fst (effective_current_lim hw m)
   \<and> \<not> fgt (fst (effective_current_lim hw m)) (current_lim (config m))
   \<and> \<not> fgt (fst (effective_current_lim hw m)) (hw_cap hw m)
   \<and> \<not> fgt (fst (effective_current_lim hw m))
          (motor_thermistor_get_current_limit hw (current_lim (config m)))
   \<and> \<not> fgt (fst (effective_current_lim hw m))
          (fet_thermistor_get_current_limit hw (current_lim (config m)))
   \<and> (\<not> is_nan (current_lim (config m)) \<and> \<not> is_nan (hw_cap hw m)
       \<and> \<not> is_nan (motor_thermistor_get_current_limit hw (current_lim (config m)))
       \<and> \<not> is_nan (fet_thermistor_get_current_limit hw (current_lim (config m)))
      \<longrightarrow>
        fst (effective_current_lim hw m)
          \<in> {current_lim (config m), hw_cap hw m,
              motor_thermistor_get_current_limit hw (current_lim (config m)),
              fet_thermistor_get_current_limit hw (current_lim (config m))}
        \<and> fge (current_lim (config m)) (fst (effective_current_lim hw m))
        \<and> fge (hw_cap hw m) (fst (effective_current_lim hw m))
        \<and> fge (motor_thermistor_get_current_limit hw (current_lim (config m)))
              (fst (effective_current_lim hw m))
        \<and> fge (fet_thermistor_get_current_limit hw (current_lim (config m)))
              (fst (effective_current_lim hw m)))"
proof -
  have eq: "fst (effective_current_lim hw m)
     = std_min (std_min (std_min (current_lim (config m)) (hw_cap hw m))
                  (motor_thermistor_get_current_limit hw (current_lim (config m))))
         (fet_thermistor_get_current_limit hw (current_lim (config m)))"
    by (simp add: effective_current_lim_def hw_cap_def Let_def)
  have st: "effective_current_lim_val (snd (effective_current_lim hw m))
              = fst (effective_current_lim hw m)"
    by (simp add: effective_current_lim_def Let_def)
  show ?thesis
    unfolding eq [symmetric]
    using st std_min_chain_not_greater [of "current_lim (config m)" "hw_cap hw m"
        "motor_thermistor_get_current_limit hw (current_lim (config m))"
        "fet_thermistor_get_current_limit hw (current_lim (config m))", folded eq]
      std_min_chain_least [of "current_lim (config m)" "hw_cap hw m"
        "motor_thermistor_get_current_limit hw (current_lim (config m))"
        "fet_thermistor_get_current_limit hw (current_lim (config m))", folded eq]
    by (simp add: eq)
qed


theorem effective_current_lim_is_min_witness:
  "\<not> is_nan (current_lim (config example_motor))
   \<and> \<not> is_nan (hw_cap (example_board\<lparr>fet_thermistor_get_current_limit := (\<lambda>c. flit 7)\<rparr>) example_motor)
   \<and> fst (effective_current_lim
        (example_board\<lparr>fet_thermistor_get_current_limit := (\<lambda>c. flit 7)\<rparr>) example_motor) = flit 7
   \<and> fge (current_lim (config example_motor))
        (fst (effective_current_lim
           (example_board\<lparr>fet_thermistor_get_current_limit := (\<lambda>c. flit 7)\<rparr>) example_motor))
   \<and> fge (hw_cap (example_board\<lparr>fet_thermistor_get_current_limit := (\<lambda>c. flit 7)\<rparr>) example_motor)
        (fst (effective_current_lim
           (example_board\<lparr>fet_thermistor_get_current_limit := (\<lambda>c. flit 7)\<rparr>) example_motor))"
proof -
  have nn: "\<not> is_nan (current_lim (config example_motor))"
    "\<not> is_nan (hw_cap (example_board\<lparr>fet_thermistor_get_current_limit := (\<lambda>c. flit 7)\<rparr>) example_motor)"
    "\<not> is_nan (motor_thermistor_get_current_limit
        (example_board\<lparr>fet_thermistor_get_current_limit := (\<lambda>c. flit 7)\<rparr>)
        (current_lim (config example_motor)))"
    "\<not> is_nan (fet_thermistor_get_current_limit
        (example_board\<lparr>fet_thermistor_get_current_limit := (\<lambda>c. flit 7)\<rparr>)
        (current_lim (config example_motor)))"
    by (simp_all add: hw_cap_def example_defs float_bits_eval)
  have v: "fst (effective_current_lim
        (example_board\<lparr>fet_thermistor_get_current_limit := (\<lambda>c. flit 7)\<rparr>) example_motor) = flit 7"
    by (simp add: effective_current_lim_def Let_def example_defs float_bits_eval)
  show ?thesis
    using effective_current_lim_is_min
      [of "example_board\<lparr>fet_thermistor_get_current_limit := (\<lambda>c. flit 7)\<rparr>" example_motor]
      nn v
    by simp
qed

subsection \<open>The slip guard of \<^verbatim>\<open>update\<close>\<close>

lemma slip_bound_finite:
  "\<not> is_nan (fmul (flit 0.1) (float_of_int (sint (current_meas_hz hw))))"
  "fmag (fmul (flit 0.1) (float_of_int (sint (current_meas_hz hw)))) < inf_bits"
proof -
  have c: "valmag (fmag (flit 0.1)) \<le> 1" "\<not> is_nan (flit 0.1)"
    by (simp_all add: float_bits_eval)
  have x: "fmag (float_of_int (sint (current_meas_hz hw))) < inf_bits"
    using float_of_int_sint_bound [of "current_meas_hz hw"] by (simp add: inf_bits_def)
  show "\<not> is_nan (fmul (flit 0.1) (float_of_int (sint (current_meas_hz hw))))"
    by (rule fmul_finite_le(1) [OF c x])
  show "fmag (fmul (flit 0.1) (float_of_int (sint (current_meas_hz hw)))) < inf_bits"
    using fmul_finite_le(2) [OF c x] x by linarith
qed

lemma slip_guard_finite:
  shows "\<not> is_nan (slip_guard hw s)" and "\<not> is_inf (slip_guard hw s)"
proof -
  show "\<not> is_nan (slip_guard hw s)"
    by (simp add: slip_guard_def)
  show "\<not> is_inf (slip_guard hw s)"
    using slip_bound_finite [of hw]
    by (auto simp: slip_guard_def fgt_def flt_def is_inf_def fkey_def)
qed

lemma modulation_saturation_acim_fields:
  "acim_rotor_flux (snd (snd (modulation_saturation hw ictrl e_d e_q m_d m_q))) = acim_rotor_flux ictrl"
  "async_phase_offset (snd (snd (modulation_saturation hw ictrl e_d e_q m_d m_q)))
     = async_phase_offset ictrl"
  by (simp_all add: modulation_saturation_def)

lemma FOC_current_acim_fields:
  "async_phase_vel (current_control (snd (FOC_current hw Id_des Iq_des I_phase pwm_phase phase_vel m)))
     = async_phase_vel (current_control m)"
  "acim_rotor_flux (current_control (snd (FOC_current hw Id_des Iq_des I_phase pwm_phase phase_vel m)))
     = acim_rotor_flux (current_control m)"
  "async_phase_offset (current_control (snd (FOC_current hw Id_des Iq_des I_phase pwm_phase phase_vel m)))
     = async_phase_offset (current_control m)"
  by (simp_all add: FOC_current_def Let_def split_def set_error_fields modulation_saturation_frame
      modulation_saturation_acim_fields)

lemma acim_update_fields:
  "async_phase_vel (current_control (fst (acim_update hw ilim i_d i_q phase phase_vel m)))
     = slip_guard hw (acim_slip_raw m i_q
         (acim_rotor_flux (current_control (fst (acim_update hw ilim i_d i_q phase phase_vel m)))))"
  "async_phase_offset (current_control (fst (acim_update hw ilim i_d i_q phase phase_vel m)))
     = wrap_pm_pi hw (fadd (async_phase_offset (current_control m))
         (fmul (async_phase_vel (current_control (fst (acim_update hw ilim i_d i_q phase phase_vel m))))
               (current_meas_period hw)))"
  "snd (snd (snd (acim_update hw ilim i_d i_q phase phase_vel m)))
     = fadd phase_vel
         (async_phase_vel (current_control (fst (acim_update hw ilim i_d i_q phase phase_vel m))))"
  "fst (snd (snd (acim_update hw ilim i_d i_q phase phase_vel m)))
     = wrap_pm_pi hw (fadd phase
         (async_phase_offset (current_control (fst (acim_update hw ilim i_d i_q phase phase_vel m)))))"
  "error (fst (acim_update hw ilim i_d i_q phase phase_vel m)) = error m"
  "axis_error (fst (acim_update hw ilim i_d i_q phase phase_vel m)) = axis_error m"
  "armed_state (fst (acim_update hw ilim i_d i_q phase phase_vel m)) = armed_state m"
  by (simp_all add: acim_update_def Let_def acim_slip_raw_def)

text \<open>
  C8.  For an induction motor, with \<open>slip\<close> the product
  \<^verbatim>\<open>acim_slip_velocity * (iq / acim_rotor_flux)\<close> of the clamped \<open>iq\<close> and the updated rotor
  flux: the slip velocity that \<^verbatim>\<open>update\<close> stores and uses is \<open>slip\<close> passed through the
  guard; it is exactly 0 whenever \<open>slip\<close> is NaN or its absolute value exceeds
  \<^verbatim>\<open>0.1f * current_meas_hz\<close>; it is never NaN and never infinite.  The phase offset and the
  phase velocity are computed from the guarded value, the block sets no error and leaves PWM
  as it was, and \<^verbatim>\<open>update\<close> goes on to \<^verbatim>\<open>FOC_current\<close>.
\<close>

theorem update_acim_slip_guard:
  fixes hw :: Board and m :: Motor and torque_setpoint phase phase_vel :: float
  defines "m' \<equiv> snd (update hw torque_setpoint phase phase_vel m)"
    and "ilim \<equiv> effective_current_lim_val m"
  defines "i_q \<equiv> std_clamp (current_setpoint m torque_setpoint) (fneg ilim) ilim"
    and "block \<equiv> acim_update hw ilim
          (std_clamp (Id_setpoint (current_control m)) (fneg ilim) ilim)
          (std_clamp (current_setpoint m torque_setpoint) (fneg ilim) ilim)
          (fmul phase (float_of_int (direction (config m))))
          (fmul phase_vel (float_of_int (direction (config m)))) m"
  defines "slip \<equiv> acim_slip_raw m i_q (acim_rotor_flux (current_control m'))"
  assumes acim: "motor_type (config m) = MOTOR_TYPE_ACIM"
  shows "async_phase_vel (current_control m') = slip_guard hw slip
    \<and> (is_nan slip
         \<or> fgt (std_abs slip) (fmul (flit 0.1) (float_of_int (sint (current_meas_hz hw))))
        \<longrightarrow> async_phase_vel (current_control m') = 0)
    \<and> \<not> is_nan (async_phase_vel (current_control m'))
    \<and> \<not> is_inf (async_phase_vel (current_control m'))
    \<and> async_phase_offset (current_control m')
        = wrap_pm_pi hw (fadd (async_phase_offset (current_control m))
            (fmul (async_phase_vel (current_control m')) (current_meas_period hw)))
    \<and> error (fst block) = error m
    \<and> axis_error (fst block) = axis_error m
    \<and> armed_state (fst block) = armed_state m
    \<and> update hw torque_setpoint phase phase_vel m
        = FOC_current hw (fst (snd block)) i_q
            (wrap_pm_pi hw (fadd (fmul phase (float_of_int (direction (config m))))
                                 (async_phase_offset (current_control m'))))
            (fadd (wrap_pm_pi hw (fadd (fmul phase (float_of_int (direction (config m))))
                                       (async_phase_offset (current_control m'))))
                  (fmul (fmul (flit 1.5) (current_meas_period hw))
                        (fadd (fmul phase_vel (float_of_int (direction (config m))))
                              (async_phase_vel (current_control m')))))
            (fadd (fmul phase_vel (float_of_int (direction (config m))))
                  (async_phase_vel (current_control m')))
            (fst block)"
proof -
  have upd: "update hw torque_setpoint phase phase_vel m
      = FOC_current hw (fst (snd block)) i_q (fst (snd (snd block)))
          (fadd (fst (snd (snd block)))
                (fmul (fmul (flit 1.5) (current_meas_period hw)) (snd (snd (snd block)))))
          (snd (snd (snd block))) (fst block)"
    using acim by (simp add: update_def Let_def split_def block_def i_q_def ilim_def)
  have vel: "async_phase_vel (current_control m') = async_phase_vel (current_control (fst block))"
    and flux: "acim_rotor_flux (current_control m') = acim_rotor_flux (current_control (fst block))"
    and off: "async_phase_offset (current_control m') = async_phase_offset (current_control (fst block))"
    unfolding m'_def upd by (simp_all add: FOC_current_acim_fields)
  have g: "async_phase_vel (current_control m') = slip_guard hw slip"
    unfolding vel slip_def flux i_q_def block_def by (rule acim_update_fields(1))
  have z: "is_nan slip \<or> fgt (std_abs slip) (fmul (flit 0.1) (float_of_int (sint (current_meas_hz hw))))
        \<longrightarrow> async_phase_vel (current_control m') = 0"
    unfolding g by (simp add: slip_guard_def)
  have o: "async_phase_offset (current_control m')
        = wrap_pm_pi hw (fadd (async_phase_offset (current_control m))
            (fmul (async_phase_vel (current_control m')) (current_meas_period hw)))"
    unfolding off vel block_def by (rule acim_update_fields(2))
  have u: "update hw torque_setpoint phase phase_vel m
        = FOC_current hw (fst (snd block)) i_q
            (wrap_pm_pi hw (fadd (fmul phase (float_of_int (direction (config m))))
                                 (async_phase_offset (current_control m'))))
            (fadd (wrap_pm_pi hw (fadd (fmul phase (float_of_int (direction (config m))))
                                       (async_phase_offset (current_control m'))))
                  (fmul (fmul (flit 1.5) (current_meas_period hw))
                        (fadd (fmul phase_vel (float_of_int (direction (config m))))
                              (async_phase_vel (current_control m')))))
            (fadd (fmul phase_vel (float_of_int (direction (config m))))
                  (async_phase_vel (current_control m')))
            (fst block)"
    unfolding off vel
    by (subst upd) (simp add: block_def acim_update_fields(3,4) [symmetric])
  show ?thesis
    using g z o u slip_guard_finite [of hw slip]
    by (simp add: block_def acim_update_fields(5,6,7))
qed




lemma example_acim_iq:
  "std_clamp (current_setpoint example_acim_motor (flit 0.04))
     (fneg (effective_current_lim_val example_acim_motor)) (effective_current_lim_val example_acim_motor)
   = flit 0.1"
  by (simp add: example_acim_motor_def current_setpoint_def example_defs float_bits_eval
      float_arith_eval)

lemma example_acim_flux:
  "acim_rotor_flux (current_control (snd (update example_board (flit 0.04) 0 0 example_acim_motor))) = 0"
proof -
  have t: "motor_type (config example_acim_motor) = MOTOR_TYPE_ACIM"
    by (simp add: example_acim_motor_def)
  have "acim_rotor_flux (current_control (fst (acim_update example_board (flit 10) 0 (flit 0.1)
          (fmul 0 (float_of_int 1)) (fmul 0 (float_of_int 1)) example_acim_motor))) = 0"
    by (simp add: example_acim_motor_def acim_update_def Let_def example_defs float_bits_eval
        float_arith_eval)
  moreover have "effective_current_lim_val example_acim_motor = flit 10"
    "Id_setpoint (current_control example_acim_motor) = 0"
    "direction (config example_acim_motor) = 1"
    by (simp_all add: example_acim_motor_def example_defs flit_values)
  moreover have "std_clamp 0 (fneg (flit 10)) (flit 10) = 0"
    by (simp add: float_bits_eval)
  ultimately show ?thesis
    using t example_acim_iq
    by (simp add: update_def Let_def split_def FOC_current_acim_fields)
qed

text \<open>
  On the example induction motor the rotor flux is 0 and \<open>Iq = 0.1\<close>: the slip
  \<open>14.706 \<sqdot> (0.1 / 0)\<close> is infinite, and the stored slip velocity is 0.
\<close>

theorem update_acim_slip_guard_witness:
  "motor_type (config example_acim_motor) = MOTOR_TYPE_ACIM
   \<and> fgt (std_abs (acim_slip_raw example_acim_motor (flit 0.1) 0))
         (fmul (flit 0.1) (float_of_int (sint (current_meas_hz example_board))))
   \<and> async_phase_vel (current_control
         (snd (update example_board (flit 0.04) 0 0 example_acim_motor))) = 0"
proof -
  have t: "motor_type (config example_acim_motor) = MOTOR_TYPE_ACIM"
    by (simp add: example_acim_motor_def)
  have g: "fgt (std_abs (acim_slip_raw example_acim_motor (flit 0.1) 0))
         (fmul (flit 0.1) (float_of_int (sint (current_meas_hz example_board))))"
    by (simp add: acim_slip_raw_def example_acim_motor_def example_defs float_bits_eval
        float_arith_eval)
  note th = update_acim_slip_guard [OF t, of example_board "flit 0.04" 0 0,
      unfolded example_acim_iq example_acim_flux]
  from th [THEN conjunct2, THEN conjunct1] g
  have "async_phase_vel (current_control
         (snd (update example_board (flit 0.04) 0 0 example_acim_motor))) = 0"
    by blast
  with t g show ?thesis by blast
qed

subsection \<open>Duty counts\<close>

lemma float_of_period_bound:
  assumes "P < 65536"
  shows "fmag (float_of_int (int P)) \<le> 0x477FFF00" and "\<not> fsign (float_of_int (int P))"
proof -
  have v: "valmag 0x477FFF00 = 65535"
    by (simp add: valmag_def scaled_mag_def)
  have "\<bar>real_of_int (int P)\<bar> \<le> 65535"
    using assms by simp
  with v show "fmag (float_of_int (int P)) \<le> 0x477FFF00"
    unfolding float_of_int_def
    by (intro fround_finite(3)) (simp_all add: inf_bits_def)
  show "\<not> fsign (float_of_int (int P))"
    by (simp add: float_of_int_def fround_def)
qed

lemma unit_interval:
  assumes "fge t 0" and "fge (flit 1) t"
  shows "\<not> is_nan t" and "valmag (fmag t) \<le> 1" and "fsign t \<Longrightarrow> fmag t = 0"
proof -
  show nn: "\<not> is_nan t" using assms(1) by (simp add: fge_def)
  show z: "fsign t \<Longrightarrow> fmag t = 0"
    using assms(1) by (simp add: fge_def fkey_def split: if_splits)
  have one: "valmag 0x3F800000 = 1"
    by (simp add: valmag_def scaled_mag_def)
  have k1: "fkey (flit 1) = 1065353216"
    by (simp add: flit_values fkey_def fsign_def fmag_def)
  have "fkey t \<le> fkey (flit 1)" using assms(2) by (simp add: fge_def)
  then have "fmag t \<le> 0x3F800000"
    unfolding k1 using z by (cases "fsign t") (simp_all add: fkey_def)
  then show "valmag (fmag t) \<le> 1"
    using valmag_mono [of "fmag t" "0x3F800000"] one by simp
qed

lemma duty_count:
  assumes t0: "fge t 0" and t1: "fge (flit 1) t" and P: "P < 65536"
  shows "unat (uint16_of_float (fmul t (float_of_int (int P))))
           = nat \<lfloor>fval (fmul t (float_of_int (int P)))\<rfloor>"
proof -
  define x where "x = float_of_int (int P)"
  define y where "y = fmul t x"
  note ui = unit_interval [OF t0 t1]
  have xb: "fmag x \<le> 0x477FFF00" and xs: "\<not> fsign x"
    unfolding x_def using float_of_period_bound [OF P] by simp_all
  then have xfin: "fmag x < inf_bits" by (simp add: inf_bits_def)
  have ynn: "\<not> is_nan y" and yle: "fmag y \<le> fmag x"
    unfolding y_def using fmul_finite_le [OF ui(2) ui(1) xfin] by simp_all
  from yle xb have yb: "fmag y \<le> 0x477FFF00" by linarith
  then have yinf: "\<not> is_inf y" by (simp add: is_inf_def inf_bits_def)
  have v: "valmag 0x477FFF00 = 65535"
    by (simp add: valmag_def scaled_mag_def)
  have vy: "valmag (fmag y) \<le> 65535"
    using valmag_mono [OF yb] v by simp
  have xnn: "\<not> is_nan x" "\<not> is_inf x"
    using xfin by (simp_all add: is_nan_def is_inf_def)
  have tinf: "\<not> is_inf t"
  proof
    assume "is_inf t"
    then have "valmag (fmag t) = 2 ^ 128"
      by (simp add: is_inf_def valmag_def scaled_mag_def inf_bits_def)
    with ui(2) show False by simp
  qed
  have yeq: "y = fround (fsign t \<noteq> fsign x) (valmag (fmag t) * valmag (fmag x))"
    unfolding y_def using ui(1) xnn tinf by (simp add: fmul_def)
  have ypos: "0 \<le> fval y"
  proof (cases "fsign t")
    case True
    then have "fmag t = 0" by (rule ui(3))
    then have "fmag y = 0" unfolding yeq by (simp add: fround_def)
    then show ?thesis by (simp add: fval_def)
  next
    case False
    with xs have "\<not> fsign y" unfolding yeq by (simp add: fround_def)
    then show ?thesis by (simp add: fval_def valmag_nonneg)
  qed
  have tr: "trunc_int y = \<lfloor>fval y\<rfloor>"
    by (rule trunc_int_nonneg [OF ynn yinf ypos])
  have "fval y \<le> 65535"
    using vy valmag_nonneg [of "fmag y"] by (simp add: fval_def)
  then have "\<lfloor>fval y\<rfloor> < 65536" by (simp add: floor_less_iff)
  moreover have "0 \<le> \<lfloor>fval y\<rfloor>" using ypos by simp
  ultimately have "unat (word_of_int \<lfloor>fval y\<rfloor> :: 16 word) = nat \<lfloor>fval y\<rfloor>"
    by (simp add: unat_eq_nat_uint uint_word_of_int)
  then show ?thesis
    unfolding uint16_of_float_def y_def [symmetric] x_def [symmetric] tr .
qed


text \<open>
  C9, as amended.  After a successful call whose on-times lie in \<open>[0, 1]\<close>, with
  \<^verbatim>\<open>TIM_1_8_PERIOD_CLOCKS\<close> below \<open>2\<^sup>1\<^sup>6\<close>, each stored duty count is the single-precision
  product of the on-time and the period with its fraction dropped: the floor of the product,
  not the nearest integer.
\<close>

theorem enqueue_duty_counts_truncated:
  assumes svm: "SVM hw mod_alpha mod_beta = (tA, tB, tC, True)"
    and nn: "\<not> is_nan mod_alpha" "\<not> is_nan mod_beta"
    and P: "TIM_1_8_PERIOD_CLOCKS hw < 65536"
    and A: "fge tA 0" "fge (flit 1) tA"
    and B: "fge tB 0" "fge (flit 1) tB"
    and C: "fge tC 0" "fge (flit 1) tC"
  shows "unat (next_timings (snd (enqueue_modulation_timings hw mod_alpha mod_beta m)) 0)
           = nat \<lfloor>fval (fmul tA (float_of_int (int (TIM_1_8_PERIOD_CLOCKS hw))))\<rfloor>
     \<and> unat (next_timings (snd (enqueue_modulation_timings hw mod_alpha mod_beta m)) 1)
           = nat \<lfloor>fval (fmul tB (float_of_int (int (TIM_1_8_PERIOD_CLOCKS hw))))\<rfloor>
     \<and> unat (next_timings (snd (enqueue_modulation_timings hw mod_alpha mod_beta m)) 2)
           = nat \<lfloor>fval (fmul tC (float_of_int (int (TIM_1_8_PERIOD_CLOCKS hw))))\<rfloor>"
  using svm nn duty_count [OF A P] duty_count [OF B P] duty_count [OF C P]
  by (simp add: enqueue_modulation_timings_def)

lemma example_on_times:
  "SVM example_board 0 0 = (flit 0.0625, flit 0.5, flit 1, True)"
  "fge (flit 0.0625) 0" "fge (flit 1) (flit 0.0625)"
  "fge (flit 0.5) 0" "fge (flit 1) (flit 0.5)"
  "fge (flit 1) 0" "fge (flit 1) (flit 1)"
  "TIM_1_8_PERIOD_CLOCKS example_board < 65536"
  by (simp_all add: example_defs float_bits_eval)

lemma example_product:
  "nat \<lfloor>fval (fmul (flit 0.0625) (float_of_int (int (TIM_1_8_PERIOD_CLOCKS example_board))))\<rfloor>
     = 218"
  by (simp add: example_defs float_bits_eval float_arith_eval)

theorem enqueue_duty_counts_truncated_witness:
  "SVM example_board 0 0 = (flit 0.0625, flit 0.5, flit 1, True)
   \<and> \<not> is_nan 0
   \<and> TIM_1_8_PERIOD_CLOCKS example_board < 65536
   \<and> fge (flit 0.0625) 0 \<and> fge (flit 1) (flit 0.0625)
   \<and> fge (flit 0.5) 0 \<and> fge (flit 1) (flit 0.5)
   \<and> fge (flit 1) 0 \<and> fge (flit 1) (flit 1)
   \<and> unat (next_timings (snd (enqueue_modulation_timings example_board 0 0 example_motor)) 0) = 218"
  using enqueue_duty_counts_truncated [OF example_on_times(1) is_nan_zero is_nan_zero
      example_on_times(8) example_on_times(2-7), of example_motor]
    example_on_times example_product
  by simp

text \<open>
  The claim as first stated fails: for the on-time \<open>1/16\<close> and the period 3500 the product
  is 218.75, the nearest integer is 219, and the stored duty count is 218.
\<close>

theorem duty_count_not_rounded:
  "SVM example_board 0 0 = (flit 0.0625, flit 0.5, flit 1, True)
   \<and> fst (enqueue_modulation_timings example_board 0 0 example_motor) = True
   \<and> unat (next_timings (snd (enqueue_modulation_timings example_board 0 0 example_motor)) 0) = 218
   \<and> round (fval (flit 0.0625) * real (TIM_1_8_PERIOD_CLOCKS example_board)) = 219"
proof -
  have "next_timings (snd (enqueue_modulation_timings example_board 0 0 example_motor)) 0 = 218"
    by (simp add: enqueue_modulation_timings_def example_defs float_bits_eval float_arith_eval
        uint16_of_float_def trunc_int_def)
  moreover have "fst (enqueue_modulation_timings example_board 0 0 example_motor) = True"
    by (simp add: enqueue_modulation_timings_def example_defs)
  moreover have "round (fval (flit 0.0625) * real (TIM_1_8_PERIOD_CLOCKS example_board)) = 219"
    by (simp add: example_defs float_bits_eval round_def)
  ultimately show ?thesis
    using example_on_times(1) by simp
qed

subsection \<open>Anti-windup\<close>

lemma pi_modulation_measured [simp]:
  "pi_modulation hw
     (m\<lparr>current_control := (current_control m)
          \<lparr>Iq_setpoint := a, Iq_measured := b, Id_measured := c\<rparr>\<rparr>) = pi_modulation hw m"
  by (rule ext)+ (simp add: pi_modulation_def Let_def)

lemma fge_not_flt: "fge x y \<Longrightarrow> \<not> flt x y"
  by (simp add: fge_def flt_def)

lemma decay_not_greater: "\<not> fgt (std_abs (fmul x (flit 0.99))) (std_abs x)"
  by (rule fmul_not_greater) (simp add: float_bits_eval)

text \<open>
  C6.  In a call of \<^verbatim>\<open>FOC_current\<close> that passes both checks, with \<open>(mod_d, mod_q)\<close> the
  modulation before the saturation block and \<open>s\<close> the scale factor
  \<^verbatim>\<open>0.80f * sqrt3_by_2 * 1.0f / std::sqrt(mod_d * mod_d + mod_q * mod_q)\<close>: if \<open>s < 1\<close>, each
  integrator is multiplied by \<^verbatim>\<open>0.99f\<close>, its magnitude does not increase, and the bus current
  estimate and the voltage handed on are those of the modulation vector scaled by \<open>s\<close>; if
  \<open>s \<ge> 1\<close>, each integrator grows by \<open>Ierr \<sqdot> (i_gain \<sqdot> current_meas_period)\<close> and the
  modulation vector is used as it is.
\<close>

theorem FOC_current_anti_windup:
  fixes hw :: Board and m :: Motor
    and Id_des Iq_des I_phase pwm_phase phase_vel :: float
    and Ialpha I_d I_q Ierr_d Ierr_q mod_d mod_q :: float
  defines "ic \<equiv> current_control m"
    and "ic' \<equiv> current_control (snd (FOC_current hw Id_des Iq_des I_phase pwm_phase phase_vel m))"
    and "s \<equiv> mod_scalefactor hw mod_d mod_q"
    and "c_p \<equiv> our_arm_cos_f32 hw pwm_phase"
    and "s_p \<equiv> our_arm_sin_f32 hw pwm_phase"
  assumes ns: "\<not> current_sense_saturated m"
    and nl: "\<not> current_limit_violated hw m I_phase"
    and cp: "clarke_park hw m I_phase = (Ialpha, I_d, I_q)"
    and pi: "pi_modulation hw m I_d I_q Id_des Iq_des phase_vel = (Ierr_d, Ierr_q, mod_d, mod_q)"
  shows "s = fdiv (fmul (fmul (flit 0.80) (sqrt3_by_2 hw)) (flit 1.0))
                  (std_sqrt (fadd (fmul mod_d mod_d) (fmul mod_q mod_q)))
    \<and> Ierr_d = fsub Id_des I_d \<and> Ierr_q = fsub Iq_des I_q
    \<and> (flt s (flit 1.0) \<longrightarrow>
          v_current_control_integral_d ic' = fmul (v_current_control_integral_d ic) (flit 0.99)
        \<and> v_current_control_integral_q ic' = fmul (v_current_control_integral_q ic) (flit 0.99)
        \<and> \<not> fgt (std_abs (v_current_control_integral_d ic')) (std_abs (v_current_control_integral_d ic))
        \<and> \<not> fgt (std_abs (v_current_control_integral_q ic')) (std_abs (v_current_control_integral_q ic))
        \<and> Ibus ic' = fadd (fmul (fmul mod_d s) I_d) (fmul (fmul mod_q s) I_q)
        \<and> final_v_alpha ic'
            = fmul (mod_to_V hw) (fsub (fmul c_p (fmul mod_d s)) (fmul s_p (fmul mod_q s)))
        \<and> final_v_beta ic'
            = fmul (mod_to_V hw) (fadd (fmul c_p (fmul mod_q s)) (fmul s_p (fmul mod_d s))))
    \<and> (fge s (flit 1.0) \<longrightarrow>
          v_current_control_integral_d ic'
            = fadd (v_current_control_integral_d ic)
                   (fmul Ierr_d (fmul (i_gain ic) (current_meas_period hw)))
        \<and> v_current_control_integral_q ic'
            = fadd (v_current_control_integral_q ic)
                   (fmul Ierr_q (fmul (i_gain ic) (current_meas_period hw)))
        \<and> Ibus ic' = fadd (fmul mod_d I_d) (fmul mod_q I_q)
        \<and> final_v_alpha ic' = fmul (mod_to_V hw) (fsub (fmul c_p mod_d) (fmul s_p mod_q))
        \<and> final_v_beta ic' = fmul (mod_to_V hw) (fadd (fmul c_p mod_q) (fmul s_p mod_d)))"
proof -
  have err: "Ierr_d = fsub Id_des I_d" "Ierr_q = fsub Iq_des I_q"
    using pi by (simp_all add: pi_modulation_def Let_def)
  have lim: "\<not> fgt (fadd (SQ I_d) (SQ I_q))
              (SQ (fadd (effective_current_lim_val m) (current_lim_margin (config m))))"
    using nl cp by (simp add: current_limit_violated_def)
  have sat: "\<not> current_sense_saturated
      (m\<lparr>current_control := (current_control m)\<lparr>Iq_setpoint := Iq_des\<rparr>\<rparr>)"
    using ns by (simp add: current_sense_saturated_def)
  have low: "flt s (flit 1.0) \<Longrightarrow>
      ic' = (current_control m)
        \<lparr>Iq_setpoint := Iq_des,
         Iq_measured := fadd (Iq_measured ic) (fmul (I_measured_report_filter_k ic) (fsub I_q (Iq_measured ic))),
         Id_measured := fadd (Id_measured ic) (fmul (I_measured_report_filter_k ic) (fsub I_d (Id_measured ic))),
         v_current_control_integral_d := fmul (v_current_control_integral_d ic) (flit 0.99),
         v_current_control_integral_q := fmul (v_current_control_integral_q ic) (flit 0.99),
         Ibus := fadd (fmul (fmul mod_d s) I_d) (fmul (fmul mod_q s) I_q),
         final_v_alpha := fmul (mod_to_V hw) (fsub (fmul c_p (fmul mod_d s)) (fmul s_p (fmul mod_q s))),
         final_v_beta := fmul (mod_to_V hw) (fadd (fmul c_p (fmul mod_q s)) (fmul s_p (fmul mod_d s)))\<rparr>"
    unfolding ic'_def using sat lim cp pi
    by (simp add: FOC_current_def Let_def split_def modulation_saturation_def s_def ic_def
        c_p_def s_p_def)
  have high: "\<not> flt s (flit 1.0) \<Longrightarrow>
      ic' = (current_control m)
        \<lparr>Iq_setpoint := Iq_des,
         Iq_measured := fadd (Iq_measured ic) (fmul (I_measured_report_filter_k ic) (fsub I_q (Iq_measured ic))),
         Id_measured := fadd (Id_measured ic) (fmul (I_measured_report_filter_k ic) (fsub I_d (Id_measured ic))),
         v_current_control_integral_d := fadd (v_current_control_integral_d ic)
                   (fmul Ierr_d (fmul (i_gain ic) (current_meas_period hw))),
         v_current_control_integral_q := fadd (v_current_control_integral_q ic)
                   (fmul Ierr_q (fmul (i_gain ic) (current_meas_period hw))),
         Ibus := fadd (fmul mod_d I_d) (fmul mod_q I_q),
         final_v_alpha := fmul (mod_to_V hw) (fsub (fmul c_p mod_d) (fmul s_p mod_q)),
         final_v_beta := fmul (mod_to_V hw) (fadd (fmul c_p mod_q) (fmul s_p mod_d))\<rparr>"
    unfolding ic'_def using sat lim cp pi
    by (simp add: FOC_current_def Let_def split_def modulation_saturation_def s_def ic_def
        c_p_def s_p_def)
  show ?thesis
    using err low high fge_not_flt [of s "flit 1.0"]
      decay_not_greater [of "v_current_control_integral_d ic"]
      decay_not_greater [of "v_current_control_integral_q ic"]
    by (auto simp: s_def mod_scalefactor_def ic_def)
qed


lemmas example_windup_defs = example_wound_up_motor_def example_tuned_motor_def

lemma example_wound_up:
  "\<not> current_sense_saturated example_wound_up_motor"
  "\<not> current_limit_violated example_board example_wound_up_motor 0"
  "clarke_park example_board example_wound_up_motor 0 = (fneg 0, 0, 0)"
  "pi_modulation example_board example_wound_up_motor 0 0 (flit 1) 0 0 = (flit 1, 0, flit 1.5, 0)"
  by (simp_all add: example_windup_defs current_sense_saturated_def current_limit_violated_def
      clarke_park_def pi_modulation_def mod_to_V_def Let_def example_defs float_bits_eval
      float_arith_eval)

lemma example_wound_up_scale:
  "flt (mod_scalefactor example_board (flit 1.5) 0) (flit 1.0)"
  by (simp add: mod_scalefactor_def example_defs float_bits_eval float_arith_eval float_sqrt_eval)

lemma example_tuned:
  "\<not> current_sense_saturated example_tuned_motor"
  "\<not> current_limit_violated example_board example_tuned_motor 0"
  "clarke_park example_board example_tuned_motor 0 = (fneg 0, 0, 0)"
  "pi_modulation example_board example_tuned_motor 0 0 (flit 1) 0 0 = (flit 1, 0, 0, 0)"
  by (simp_all add: example_windup_defs current_sense_saturated_def current_limit_violated_def
      clarke_park_def pi_modulation_def mod_to_V_def Let_def example_defs float_bits_eval
      float_arith_eval)

lemma example_tuned_scale:
  "fge (mod_scalefactor example_board 0 0) (flit 1.0)"
  by (simp add: mod_scalefactor_def example_defs float_bits_eval float_arith_eval float_sqrt_eval)

lemma example_integrators:
  "fmul (v_current_control_integral_d (current_control example_wound_up_motor)) (flit 0.99)
     = flit 23.76"
  "fadd (v_current_control_integral_d (current_control example_tuned_motor))
        (fmul (flit 1) (fmul (i_gain (current_control example_tuned_motor))
                             (current_meas_period example_board))) = flit 0.002"
  by (simp_all add: example_windup_defs example_defs float_bits_eval float_arith_eval)

text \<open>
  An integrator wound up to 24 V on a 24 V bus gives the modulation 1.5 and the scale factor
  0.46: the integrator decays to 23.76 V.  With the integrators at 0 the modulation is 0 and
  the scale factor infinite: the integrator takes the step \<open>1 \<sqdot> (16 \<sqdot> 0.000125) = 0.002\<close>.
\<close>

theorem FOC_current_anti_windup_witness:
  "\<not> current_sense_saturated example_wound_up_motor
   \<and> \<not> current_limit_violated example_board example_wound_up_motor 0
   \<and> clarke_park example_board example_wound_up_motor 0 = (fneg 0, 0, 0)
   \<and> pi_modulation example_board example_wound_up_motor 0 0 (flit 1) 0 0 = (flit 1, 0, flit 1.5, 0)
   \<and> flt (mod_scalefactor example_board (flit 1.5) 0) (flit 1.0)
   \<and> v_current_control_integral_d (current_control
         (snd (FOC_current example_board (flit 1) 0 0 0 0 example_wound_up_motor))) = flit 23.76
   \<and> \<not> current_sense_saturated example_tuned_motor
   \<and> \<not> current_limit_violated example_board example_tuned_motor 0
   \<and> clarke_park example_board example_tuned_motor 0 = (fneg 0, 0, 0)
   \<and> pi_modulation example_board example_tuned_motor 0 0 (flit 1) 0 0 = (flit 1, 0, 0, 0)
   \<and> fge (mod_scalefactor example_board 0 0) (flit 1.0)
   \<and> v_current_control_integral_d (current_control
         (snd (FOC_current example_board (flit 1) 0 0 0 0 example_tuned_motor))) = flit 0.002"
proof -
  note w = FOC_current_anti_windup [OF example_wound_up, of 0]
  note t = FOC_current_anti_windup [OF example_tuned, of 0]
  from w example_wound_up_scale
  have a: "v_current_control_integral_d (current_control
         (snd (FOC_current example_board (flit 1) 0 0 0 0 example_wound_up_motor)))
      = fmul (v_current_control_integral_d (current_control example_wound_up_motor)) (flit 0.99)"
    by blast
  from t example_tuned_scale
  have b: "v_current_control_integral_d (current_control
         (snd (FOC_current example_board (flit 1) 0 0 0 0 example_tuned_motor)))
      = fadd (v_current_control_integral_d (current_control example_tuned_motor))
          (fmul (flit 1) (fmul (i_gain (current_control example_tuned_motor))
                               (current_meas_period example_board)))"
    by blast
  show ?thesis
    unfolding a b example_integrators
    using example_wound_up example_wound_up_scale example_tuned example_tuned_scale
    by blast
qed

subsection \<open>The identified inductance\<close>

text \<open>
  Once the loop has ended with no axis error, an identified inductance outside the range is
  stored in the configuration before the call fails.
\<close>

lemma measure_phase_inductance_stores_first:
  assumes loop: "run_control_loop (inductance_tick voltage_low voltage_high) hw ticks ((0, 0), 0) m
                   = Some (l, m1, ticks1)"
    and ax: "axis_error m1 = {}"
    and out: "flt (identified_inductance hw voltage_low voltage_high (fst l)) (flit 0.000002)
              \<or> fgt (identified_inductance hw voltage_low voltage_high (fst l)) (flit 0.004)"
  shows "measure_phase_inductance hw voltage_low voltage_high ticks m
     = Some (False,
         set_error ERROR_PHASE_INDUCTANCE_OUT_OF_RANGE
           (m1\<lparr>config := (config m1)
               \<lparr>phase_inductance := identified_inductance hw voltage_low voltage_high (fst l)\<rparr>\<rparr>),
         ticks1)"
  using assms by (simp add: measure_phase_inductance_def Let_def)

lemma zero_tick_step:
  assumes "v = flit (- 2) \<or> v = flit 2"
  shows "enqueue_voltage_timings (example_board\<lparr>vbus_voltage := snd zero_tick\<rparr>) v 0 m
    = (True, log_timing example_board TIMING_LOG_FOC_VOLTAGE
         (m\<lparr>next_timings := (next_timings m)(0 := 218, 1 := 1750, 2 := 3500),
            next_timings_valid := True\<rparr>))"
  using assms
  by (auto simp add: enqueue_voltage_timings_def enqueue_modulation_timings_def Let_def zero_tick_def
      log_timing_def uint16_of_float_def trunc_int_def example_defs float_bits_eval float_arith_eval)


lemma zero_tick_state_fields [simp]:
  "error (zero_tick_state m) = error m"
  "axis_error (zero_tick_state m) = axis_error m"
  "config (zero_tick_state m) = config m"
  by (simp_all add: zero_tick_state_def log_timing_def)

lemma zero_sum: "fadd 0 (fsub (fneg 0) 0) = 0"
  by (simp add: float_bits_eval float_arith_eval)

lemma inductance_zero_tick:
  "inductance_tick (flit (- 2)) (flit 2) (example_board\<lparr>vbus_voltage := snd zero_tick\<rparr>)
     ((0, 0), t) (m\<lparr>current_meas := fst zero_tick\<rparr>)
   = (Suc t < 10000, ((0, 0), Suc t), zero_tick_state m)"
proof -
  have cm: "phB (fst zero_tick) = 0" "phC (fst zero_tick) = 0"
    by (simp_all add: zero_tick_def)
  show ?thesis
    by (simp add: inductance_tick_def Let_def zero_tick_step cm zero_sum zero_tick_state_def
        log_timing_def)
qed

lemma inductance_loop_zero:
  assumes "error m = {}" and "t + k = 10000" and "0 < k"
  shows "\<exists>m1. run_control_loop (inductance_tick (flit (- 2)) (flit 2)) example_board
                 (replicate k zero_tick @ rest) ((0, 0), t) m
               = Some (((0, 0), 10000), m1, rest)
             \<and> error m1 = {} \<and> axis_error m1 = axis_error m \<and> config m1 = config m"
  using assms
proof (induction k arbitrary: t m)
  case 0
  then show ?case by simp
next
  case (Suc k)
  show ?case
  proof (cases "k = 0")
    case True
    with Suc.prems have "Suc t = 10000" by simp
    with True Suc.prems(1) show ?thesis
      by (simp add: inductance_zero_tick)
  next
    case False
    with Suc.prems have lt: "Suc t < 10000" and sum: "Suc t + k = 10000" by simp_all
    have e: "error (zero_tick_state m) = {}"
      using Suc.prems(1) by simp
    from Suc.IH [OF e sum] False
    obtain m1 where
      "run_control_loop (inductance_tick (flit (- 2)) (flit 2)) example_board
          (replicate k zero_tick @ rest) ((0, 0), Suc t) (zero_tick_state m)
        = Some (((0, 0), 10000), m1, rest)"
      and "error m1 = {}" and "axis_error m1 = axis_error m" and "config m1 = config m"
      by auto
    with lt Suc.prems(1) show ?thesis
      by (simp add: inductance_zero_tick)
  qed
qed

lemma zero_inductance:
  "identified_inductance example_board (flit (- 2)) (flit 2) (0, 0) = mkfloat False inf_bits"
  "fgt (mkfloat False inf_bits) (flit 0.004)"
  by (simp_all add: identified_inductance_def Let_def example_defs float_bits_eval float_arith_eval)

text \<open>
  C4.  \<^verbatim>\<open>measure_phase_inductance(-2, 2)\<close> on the example motor, with no phase current at any of
  its 10000 ticks: both sums stay 0, \<open>dI/dt\<close> is 0 and the identified inductance is
  \<open>+\<infinity>\<close>.  The call returns false with \<^verbatim>\<open>PHASE_INDUCTANCE_OUT_OF_RANGE\<close> set and PWM
  disarmed, and \<^verbatim>\<open>config_.phase_inductance\<close> is left holding \<open>+\<infinity>\<close>: the assignment comes
  before the range check.
\<close>

theorem inductance_out_of_range_is_stored:
  "map_option (\<lambda>(ok, m', rest).
       (ok, phase_inductance (config m'),
        ERROR_PHASE_INDUCTANCE_OUT_OF_RANGE \<in> error m', armed_state m', rest))
     (measure_phase_inductance example_board (flit (- 2)) (flit 2)
        (replicate 10000 zero_tick) example_motor)
   = Some (False, mkfloat False inf_bits, True, DISARMED, [])"
proof -
  have e: "error example_motor = {}" "axis_error example_motor = {}"
    by (simp_all add: example_motor_def)
  from inductance_loop_zero [OF e(1), of 0 10000 "[]"]
  obtain m1 where loop:
    "run_control_loop (inductance_tick (flit (- 2)) (flit 2)) example_board
        (replicate 10000 zero_tick) ((0, 0), 0) example_motor
      = Some (((0, 0), 10000), m1, [])"
    and ax: "axis_error m1 = {}"
    using e(2) by auto
  have out: "flt (identified_inductance example_board (flit (- 2)) (flit 2)
                    (fst ((0 :: float, 0 :: float), 10000 :: nat))) (flit 0.000002)
           \<or> fgt (identified_inductance example_board (flit (- 2)) (flit 2)
                    (fst ((0 :: float, 0 :: float), 10000 :: nat))) (flit 0.004)"
    using zero_inductance by simp
  show ?thesis
    unfolding measure_phase_inductance_stores_first [OF loop ax out]
    using zero_inductance(1) by (simp add: set_error_fields)
qed

end
